theory Spec2Isabelle
  imports Main "HOL-Library.Word"
begin

unbundle bit_operations_syntax

section \<open>Device preparation of btrfs (common/device-utils.c)\<close>

text \<open>
  A shallow embedding of \<^verbatim>\<open>src/btrfs/common/device-utils.c\<close>: the chunked discard,
  the buffered zero write, the clamped zero-fill, the signature wiper and the
  preparation orchestrator.

  The C functions talk to the kernel, to libc, to libblkid and to the zoned-device
  helpers of \<^verbatim>\<open>kernel-shared/zoned.h\<close>. None of these is part of the file, so each of
  them (but \<open>zero_zone_blocks\<close>, which is modelled from the specification further
  down) is a field of the record \<open>env\<close> below: an answer function that receives the
  trace of all calls issued so far (oldest first) and the arguments of the call.
  Since the answer may depend on the whole history, two calls with equal arguments
  may answer differently. Every function of the file takes the trace, appends the
  calls it issues and returns the extended trace next to its C return value.

  Machine integers are words: \<open>u64\<close>, \<open>off_t\<close>, \<open>ssize_t\<close>, \<open>size_t\<close> and \<open>loff_t\<close>
  are all 64 bit wide on the platforms the file is built for and are modelled as
  \<open>64 word\<close>; \<open>unat\<close> reads a word as unsigned, \<open>sint\<close> as signed, and the C
  conversions between the signed and the unsigned reading keep the bits. Signed
  overflow of \<open>start + len\<close> is taken to wrap around. C \<open>int\<close> return codes are never
  used in arithmetic that could overflow and are modelled as \<open>int\<close>.
\<close>

subsection \<open>Types\<close>

type_synonym u64 = "64 word"

text \<open>The model tag of \<^verbatim>\<open>struct btrfs_zoned_device_info\<close>.\<close>

datatype zoned_model = ZONED_NONE | ZONED_HOST_AWARE | ZONED_HOST_MANAGED

text \<open>
  \<^verbatim>\<open>struct btrfs_zoned_device_info\<close>, with the fields the file reads: \<open>model\<close>,
  \<open>zone_size\<close> and \<open>nr_zones\<close>. The array \<open>zones\<close> is only ever addressed here
  (\<^verbatim>\<open>&zinfo->zones[i]\<close>), never read, so a zone descriptor is its index.
  A pointer to the structure is a \<open>zinfo option\<close>, \<open>None\<close> for \<open>NULL\<close>.
\<close>

record zinfo =
  model :: zoned_model
  zone_size :: u64
  nr_zones :: "32 word"

text \<open>\<^verbatim>\<open>struct stat\<close>, with the two fields \<open>btrfs_device_size\<close> reads.\<close>

record stat =
  st_mode :: "32 word"
  st_size :: u64

text \<open>
  The calls that leave the file, in the order they are issued. \<open>EvPwriteZero\<close> is the
  \<open>pwrite\<close> of \<open>device_zero_blocks\<close> and \<open>EvPwriteWipe\<close> the \<open>pwrite\<close> of
  \<open>btrfs_wipe_existing_sb\<close>; both carry offset and byte count. \<open>EvZoneResetRange\<close>
  is the zone reset over a byte range (start, length) that \<open>zero_zone_blocks\<close> performs
  in place of a zero write. \<open>EvGetZoneInfo\<close>
  records what the provider returned, since a returned structure is an allocation
  the caller owns. \<open>EvFreeZinfo\<close> is \<open>free(zinfo)\<close>, with the pointer it was given.
\<close>

datatype event =
    EvFstat
  | EvBlkGetSize64
  | EvBlkDiscard u64 u64
  | EvMalloc u64
  | EvPwriteZero u64 u64
  | EvZoneResetRange zinfo u64 u64
  | EvGetZoneInfo int "zinfo option"
  | EvResetAllZones zinfo
  | EvNewProbe
  | EvProbeSetDevice
  | EvLookupOffset
  | EvLookupMagic
  | EvPwriteWipe u64 u64
  | EvResetDevZone zinfo u64
  | EvFsync
  | EvFreeProbe
  | EvFreeZinfo "zinfo option"

type_synonym trace = "event list"

text \<open>
  The collaborators. Each answer is what the C call returns:
  \<^item> \<open>fstat\<close>: the return value and the \<open>struct stat\<close> it filled in;
  \<^item> \<open>ioctl_BLKGETSIZE64\<close>: the return value and the size it stored;
  \<^item> \<open>ioctl_BLKDISCARD\<close>, for a range (start, length): the return value and \<open>errno\<close>;
  \<^item> \<open>malloc\<close>, for a size: whether the pointer is not \<open>NULL\<close>;
  \<^item> \<open>pwrite\<close>, for a byte count and an offset: the \<open>ssize_t\<close> it returns;
  \<^item> \<open>btrfs_get_zone_info\<close>, \<open>btrfs_reset_all_zones\<close>, \<open>btrfs_reset_dev_zone\<close> (for a
    zone index) and \<open>zone_is_sequential\<close>: the helpers declared in
    \<^verbatim>\<open>kernel-shared/zoned.h\<close>;
  \<^item> \<open>zone_reset_range\<close>, for a byte range (start, length): the status of the zone
    reset primitive when \<open>zero_zone_blocks\<close> applies it to that range;
  \<^item> \<open>blkid_new_probe\<close>: whether a probe was created; \<open>blkid_probe_set_device\<close>: its
    return value; \<open>lookup_SBMAGIC_OFFSET\<close>: the return value of
    \<open>blkid_probe_lookup_value\<close> and the number \<open>strtoll\<close> reads from the string it
    stored (\<open>None\<close> when the string pointer stays \<open>NULL\<close>); \<open>lookup_SBMAGIC\<close>: the
    return value and the length it stored.
\<close>

record env =
  fstat :: "trace \<Rightarrow> int \<times> stat"
  ioctl_BLKGETSIZE64 :: "trace \<Rightarrow> int \<times> u64"
  ioctl_BLKDISCARD :: "trace \<Rightarrow> u64 \<Rightarrow> u64 \<Rightarrow> int \<times> int"
  malloc :: "trace \<Rightarrow> u64 \<Rightarrow> bool"
  pwrite :: "trace \<Rightarrow> u64 \<Rightarrow> u64 \<Rightarrow> u64"
  zone_reset_range :: "trace \<Rightarrow> zinfo \<Rightarrow> u64 \<Rightarrow> u64 \<Rightarrow> int"
  btrfs_get_zone_info :: "trace \<Rightarrow> int \<times> zinfo option"
  btrfs_reset_all_zones :: "trace \<Rightarrow> zinfo \<Rightarrow> int"
  btrfs_reset_dev_zone :: "trace \<Rightarrow> zinfo \<Rightarrow> u64 \<Rightarrow> int"
  zone_is_sequential :: "zinfo option \<Rightarrow> u64 \<Rightarrow> bool"
  blkid_new_probe :: "trace \<Rightarrow> bool"
  blkid_probe_set_device :: "trace \<Rightarrow> int"
  lookup_SBMAGIC_OFFSET :: "trace \<Rightarrow> int \<times> u64 option"
  lookup_SBMAGIC :: "trace \<Rightarrow> int \<times> u64"

text \<open>
  The constants and macros of headers that are not part of the file
  (\<^verbatim>\<open>kernel-shared/disk-io.h\<close>, \<^verbatim>\<open>kernel-shared/ctree.h\<close>, \<^verbatim>\<open>common/device-utils.h\<close>,
  \<^verbatim>\<open>stdio.h\<close>) are parameters: the number of superblock mirrors, the offset of each
  mirror, the size of a superblock, the size of the wiper's scratch buffer and the
  bit masks of the four preparation flags.
\<close>

record params =
  BTRFS_SUPER_MIRROR_MAX :: int
  btrfs_sb_offset :: "int \<Rightarrow> u64"
  BTRFS_SUPER_INFO_SIZE :: u64
  BUFSIZ :: u64
  PREP_DEVICE_ZERO_END :: "32 word"
  PREP_DEVICE_DISCARD :: "32 word"
  PREP_DEVICE_VERBOSE :: "32 word"
  PREP_DEVICE_ZONED :: "32 word"

subsection \<open>Constants\<close>

text \<open>
  Modelled from the spec: \<^verbatim>\<open>kernel-lib/sizes.h\<close> is missing; the spec gives the discard
  chunk as 1 GiB and the zeroed boot and tail regions as 2 MiB.
\<close>

definition SZ_1G :: u64 where
  "SZ_1G = 0x40000000"

definition SZ_2M :: u64 where
  "SZ_2M = 0x200000"

definition ZERO_DEV_BYTES :: u64 where
  "ZERO_DEV_BYTES = SZ_2M"

text \<open>The Linux values of the two \<open>errno\<close> codes the file returns negated.\<close>

definition ENOMEM :: int where
  "ENOMEM = 12"

definition EIO :: int where
  "EIO = 5"

text \<open>The file type test macros of \<^verbatim>\<open>sys/stat.h\<close>.\<close>

definition S_ISREG :: "32 word \<Rightarrow> bool" where
  "S_ISREG m = (m AND 0xF000 = 0x8000)"

definition S_ISBLK :: "32 word \<Rightarrow> bool" where
  "S_ISBLK m = (m AND 0xF000 = 0x6000)"

text \<open>
  The macro \<open>min_t(u64, a, b)\<close>, \<open>__x < __y ? __x : __y\<close> after converting both to
  \<open>u64\<close>: an unsigned comparison, which is the order of words.
\<close>

definition min_t_u64 :: "u64 \<Rightarrow> u64 \<Rightarrow> u64" where
  "min_t_u64 a b = (if a < b then a else b)"

subsection \<open>Range discard\<close>

text \<open>\<open>discard_range\<close>: one \<open>BLKDISCARD\<close> ioctl; \<open>errno\<close> when it fails, else 0.\<close>

definition discard_range :: "env \<Rightarrow> u64 \<Rightarrow> u64 \<Rightarrow> trace \<Rightarrow> int \<times> trace" where
  "discard_range e start len t =
     (let (r, errno) = ioctl_BLKDISCARD e t start len
      in (if r < 0 then errno else 0, t @ [EvBlkDiscard start len]))"

text \<open>
  \<open>device_discard_blocks\<close>: the \<open>while (len > 0)\<close> loop. Both \<open>len -= chunk_size\<close>
  and \<open>start += chunk_size\<close> are \<open>u64\<close> arithmetic.
\<close>

function device_discard_blocks :: "env \<Rightarrow> u64 \<Rightarrow> u64 \<Rightarrow> trace \<Rightarrow> int \<times> trace" where
  "device_discard_blocks e start len t =
     (if len > 0 then
        (let chunk_size = min_t_u64 len SZ_1G;
             (ret, t') = discard_range e start chunk_size t
         in if ret \<noteq> 0 then (ret, t')
            else device_discard_blocks e (start + chunk_size) (len - chunk_size) t')
      else (0, t))"
  by pat_completeness auto
termination
proof (relation "measure (\<lambda>(e, start, len, t). unat len)")
  show "wf (measure (\<lambda>(e, start, len, t). unat len))" by simp
next
  fix e :: env and start len :: u64 and t :: trace and x xa y
  assume pos: "0 < len" and x: "x = min_t_u64 len SZ_1G"
  have xmin: "x = min len SZ_1G"
    using x by (auto simp: min_t_u64_def min_def)
  have le: "x \<le> len"
    using xmin by simp
  have "0 < x"
    using pos xmin by (simp add: SZ_1G_def min_def)
  then have "0 < unat x"
    by (metis unat_gt_0 word_greater_zero_iff)
  moreover have "unat (len - x) = unat len - unat x"
    using le by (simp add: unat_sub)
  moreover have "unat x \<le> unat len"
    using le by (simp add: word_le_nat_alt)
  ultimately have "unat (len - x) < unat len"
    by linarith
  then show "((e, start + x, len - x, xa), (e, start, len, t))
      \<in> measure (\<lambda>(e, start, len, t). unat len)"
    by simp
qed

declare device_discard_blocks.simps [simp del]

subsection \<open>Range zero-fill\<close>

text \<open>
  \<open>device_zero_blocks\<close>: allocate \<open>len\<close> bytes, clear them, write them at \<open>start\<close>
  with one \<open>pwrite\<close>. The comparison \<open>written != len\<close> is between an \<open>ssize_t\<close> and
  a \<open>size_t\<close>, so it compares the bits. \<open>memset\<close> and \<open>free(buf)\<close> touch only the
  buffer and leave no event.
\<close>

definition device_zero_blocks :: "env \<Rightarrow> u64 \<Rightarrow> u64 \<Rightarrow> trace \<Rightarrow> int \<times> trace" where
  "device_zero_blocks e start len t =
     (if \<not> malloc e t len then (- ENOMEM, t @ [EvMalloc len])
      else
        (let t1 = t @ [EvMalloc len];
             written = pwrite e t1 len start
         in (if written \<noteq> len then - EIO else 0, t1 @ [EvPwriteZero start len])))"

subsection \<open>Zero-fill of a zoned device\<close>

text \<open>
  Modelled from the spec: \<open>zero_zone_blocks\<close> is declared in
  \<^verbatim>\<open>kernel-shared/zoned.h\<close>, which is missing, so what "the clamped range lies
  within a sequential zone" (4.3) means is fixed here: the zone the start of the
  range is in (the zone \<open>start / zone_size\<close>, as the wiper computes it) is sequential,
  and the range ends inside that zone.
\<close>

definition range_in_sequential_zone :: "env \<Rightarrow> zinfo \<Rightarrow> u64 \<Rightarrow> u64 \<Rightarrow> bool" where
  "range_in_sequential_zone e z start len =
     (zone_is_sequential e (Some z) start \<and> zone_size z \<noteq> 0 \<and>
      unat start mod unat (zone_size z) + unat len \<le> unat (zone_size z))"

text \<open>
  Modelled from the spec: \<open>zero_zone_blocks\<close> is declared in
  \<^verbatim>\<open>kernel-shared/zoned.h\<close>, which is missing, and only called here. The
  specification (4.3) says what is done with the range on a host-managed device:
  when it lies within a sequential zone, a zone reset over the range in place of a
  byte-level zero write; otherwise the plain zero-fill of \<open>device_zero_blocks\<close> over
  the range. The status of the operation chosen is returned. The zone reset is the
  external primitive of the specification (6), the field \<open>zone_reset_range\<close>.
\<close>

definition zero_zone_blocks :: "env \<Rightarrow> zinfo \<Rightarrow> u64 \<Rightarrow> u64 \<Rightarrow> trace \<Rightarrow> int \<times> trace" where
  "zero_zone_blocks e z start len t =
     (if range_in_sequential_zone e z start len
      then (zone_reset_range e t z start len, t @ [EvZoneResetRange z start len])
      else device_zero_blocks e start len t)"

subsection \<open>Zone-aware clamped zero-fill\<close>

text \<open>
  The \<open>max\<close> macro, \<open>_x > _y ? _x : _y\<close>, on two \<open>off_t\<close> values compares them signed.
  The bounds are then clamped with \<open>min_t(u64, ...)\<close>, which compares them unsigned.
\<close>

definition max_off_t :: "u64 \<Rightarrow> u64 \<Rightarrow> u64" where
  "max_off_t x y = (if sint x > sint y then x else y)"

text \<open>
  The bounds \<open>zero_dev_clamped\<close> computes from \<open>(start, len, dev_size)\<close>: the clamped
  \<open>start\<close> and the clamped \<open>end\<close>. The \<^verbatim>\<open>__sparc__\<close> branch is not compiled in.
\<close>

definition clamped_start :: "u64 \<Rightarrow> u64 \<Rightarrow> u64" where
  "clamped_start start dev_size = min_t_u64 start dev_size"

definition clamped_end :: "u64 \<Rightarrow> u64 \<Rightarrow> u64 \<Rightarrow> u64" where
  "clamped_end start len dev_size = min_t_u64 (max_off_t start (start + len)) dev_size"

text \<open>
  \<open>zero_dev_clamped\<close>: with a zone info whose model is host-managed the clamped range
  goes to \<open>zero_zone_blocks\<close>, else to \<open>device_zero_blocks\<close>. The length handed on is
  \<open>end - start\<close>, an \<open>off_t\<close> difference converted to \<open>size_t\<close>.
\<close>

definition zero_dev_clamped ::
  "env \<Rightarrow> zinfo option \<Rightarrow> u64 \<Rightarrow> u64 \<Rightarrow> u64 \<Rightarrow> trace \<Rightarrow> int \<times> trace" where
  "zero_dev_clamped e zi start len dev_size t =
     (let end' = clamped_end start len dev_size;
          start' = clamped_start start dev_size
      in case zi of
           Some z \<Rightarrow>
             if model z = ZONED_HOST_MANAGED
             then zero_zone_blocks e z start' (end' - start') t
             else device_zero_blocks e start' (end' - start') t
         | None \<Rightarrow> device_zero_blocks e start' (end' - start') t)"

subsection \<open>Signature wiper\<close>

text \<open>
  A call either returns its \<open>int\<close> or traps: \<open>btrfs_wipe_existing_sb\<close> dereferences
  \<open>zinfo\<close> and divides by \<open>zinfo->zone_size\<close> on the path where the offset is
  reported to be in a sequential zone, and nothing in the file rules out a \<open>NULL\<close>
  pointer or a zero zone size there.
\<close>

datatype status = Returned int | Trapped

text \<open>
  \<open>ret = pwrite(...)\<close> stores an \<open>ssize_t\<close> in an \<open>int\<close> (the low 32 bits, read
  signed); \<open>ret != len\<close> converts that \<open>int\<close> back to \<open>size_t\<close>.
\<close>

definition int_of_ssize_t :: "u64 \<Rightarrow> int" where
  "int_of_ssize_t w = sint (ucast w :: 32 word)"

definition size_t_of_int :: "int \<Rightarrow> u64" where
  "size_t_of_int i = word_of_int i"

text \<open>
  The part of \<open>btrfs_wipe_existing_sb\<close> after a signature was found: the zero write
  or the zone reset, and the \<open>fsync\<close> that follows both. The returned \<open>ret\<close> is the
  byte count of the \<open>pwrite\<close> when it wrote all \<open>len\<close> bytes, the result of
  \<open>btrfs_reset_dev_zone\<close> when that is not negative, and -1 on the failures.
\<close>

definition wipe_found ::
  "env \<Rightarrow> zinfo option \<Rightarrow> u64 \<Rightarrow> u64 \<Rightarrow> trace \<Rightarrow> status \<times> trace" where
  "wipe_found e zi offset len t =
     (if \<not> zone_is_sequential e zi offset then
        (let ret = int_of_ssize_t (pwrite e t len offset);
             t1 = t @ [EvPwriteWipe offset len];
             ret' = (if ret < 0 then - 1 else if size_t_of_int ret \<noteq> len then - 1 else ret)
         in (Returned ret', t1 @ [EvFsync]))
      else
        (case zi of
           None \<Rightarrow> (Trapped, t)
         | Some z \<Rightarrow>
             if zone_size z = 0 then (Trapped, t)
             else
               (let zone = offset div zone_size z;
                    ret = btrfs_reset_dev_zone e t z zone;
                    t1 = t @ [EvResetDevZone z zone];
                    ret' = (if ret < 0 then - 1 else ret)
                in (Returned ret', t1 @ [EvFsync]))))"

text \<open>
  \<open>btrfs_wipe_existing_sb\<close>. The label \<open>out\<close> stands behind the \<open>fsync\<close>, so the
  two \<open>goto out\<close> and the early \<open>return -1\<close> leave without it. \<open>len\<close> starts as 0
  and is only set by the second lookup, which is only made when the first returned 0.
\<close>

definition btrfs_wipe_existing_sb ::
  "env \<Rightarrow> params \<Rightarrow> zinfo option \<Rightarrow> trace \<Rightarrow> status \<times> trace" where
  "btrfs_wipe_existing_sb e ps zi t =
     (let t1 = t @ [EvNewProbe] in
      if \<not> blkid_new_probe e t then (Returned (- 1), t1)
      else
        (let t2 = t1 @ [EvProbeSetDevice] in
         if blkid_probe_set_device e t1 \<noteq> 0 then (Returned (- 1), t2 @ [EvFreeProbe])
         else
           (let (r1, off) = lookup_SBMAGIC_OFFSET e t2;
                t3 = t2 @ [EvLookupOffset];
                (ret, len, t4) =
                  (if r1 = 0
                   then (let (r2, l) = lookup_SBMAGIC e t3 in (r2, l, t3 @ [EvLookupMagic]))
                   else (r1, 0, t3))
            in if ret \<noteq> 0 \<or> len = 0 \<or> off = None then (Returned 1, t4 @ [EvFreeProbe])
               else
                 (let offset = the off;
                      len' = (if len > BUFSIZ ps then BUFSIZ ps else len);
                      (st, t5) = wipe_found e zi offset len' t4
                  in case st of
                       Trapped \<Rightarrow> (Trapped, t5)
                     | Returned r \<Rightarrow> (Returned r, t5 @ [EvFreeProbe])))))"

subsection \<open>Device size\<close>

definition btrfs_device_size :: "env \<Rightarrow> stat \<Rightarrow> trace \<Rightarrow> u64 \<times> trace" where
  "btrfs_device_size e st t =
     (if S_ISREG (st_mode st) then (st_size st, t)
      else if \<not> S_ISBLK (st_mode st) then (0, t)
      else
        (let (r, size) = ioctl_BLKGETSIZE64 e t
         in (if r \<ge> 0 then size else 0, t @ [EvBlkGetSize64])))"

subsection \<open>Preparation orchestrator\<close>

text \<open>The \<open>for\<close> loop over the superblock mirrors; it stops at the first non-zero \<open>ret\<close>.\<close>

function zero_mirrors ::
  "env \<Rightarrow> params \<Rightarrow> zinfo option \<Rightarrow> u64 \<Rightarrow> int \<Rightarrow> int \<Rightarrow> trace \<Rightarrow> int \<times> trace" where
  "zero_mirrors e ps zi block_count i ret t =
     (if ret = 0 \<and> i < BTRFS_SUPER_MIRROR_MAX ps then
        (let (ret', t') = zero_dev_clamped e zi (btrfs_sb_offset ps i)
                            (BTRFS_SUPER_INFO_SIZE ps) block_count t
         in zero_mirrors e ps zi block_count (i + 1) ret' t')
      else (ret, t))"
  by pat_completeness auto
termination
  by (relation "measure (\<lambda>(e, ps, zi, block_count, i, ret, t).
        nat (BTRFS_SUPER_MIRROR_MAX ps - i))") auto

declare zero_mirrors.simps [simp del]

text \<open>
  The three zeroing steps of \<open>btrfs_prepare_device\<close>: the boot area, the mirrors and,
  when \<open>PREP_DEVICE_ZERO_END\<close> is set and nothing failed, the tail.
  \<open>block_count - ZERO_DEV_BYTES\<close> is \<open>u64\<close> arithmetic.
\<close>

definition zero_steps ::
  "env \<Rightarrow> params \<Rightarrow> zinfo option \<Rightarrow> 32 word \<Rightarrow> u64 \<Rightarrow> trace \<Rightarrow> int \<times> trace" where
  "zero_steps e ps zi opflags block_count t =
     (let (ret0, t0) = zero_dev_clamped e zi 0 ZERO_DEV_BYTES block_count t;
          (ret1, t1) = zero_mirrors e ps zi block_count 0 ret0 t0
      in if ret1 = 0 \<and> opflags AND PREP_DEVICE_ZERO_END ps \<noteq> 0
         then zero_dev_clamped e zi (block_count - ZERO_DEV_BYTES) ZERO_DEV_BYTES
                block_count t1
         else (ret1, t1))"

text \<open>
  The result of \<open>btrfs_prepare_device\<close>: how the call ended, the value stored through
  \<open>block_count_ret\<close> (\<open>None\<close> when nothing was stored) and the trace.
\<close>

type_synonym prep_result = "status \<times> u64 option \<times> trace"

text \<open>The label \<open>err\<close>: \<open>free(zinfo); return 1\<close>.\<close>

definition prepare_err :: "zinfo option \<Rightarrow> trace \<Rightarrow> prep_result" where
  "prepare_err zi t = (Returned 1, None, t @ [EvFreeZinfo zi])"

text \<open>
  \<open>btrfs_prepare_device\<close> from the first \<open>zero_dev_clamped\<close> on: zeroing, the test
  \<open>ret < 0\<close>, the signature wipe, and the two ways out.
\<close>

definition prepare_zero_wipe ::
  "env \<Rightarrow> params \<Rightarrow> zinfo option \<Rightarrow> 32 word \<Rightarrow> u64 \<Rightarrow> trace \<Rightarrow> prep_result" where
  "prepare_zero_wipe e ps zi opflags block_count t =
     (let (ret, t1) = zero_steps e ps zi opflags block_count t
      in if ret < 0 then prepare_err zi t1
         else
           (let (st, t2) = btrfs_wipe_existing_sb e ps zi t1
            in case st of
                 Trapped \<Rightarrow> (Trapped, None, t2)
               | Returned r \<Rightarrow>
                   if r < 0 then prepare_err zi t2
                   else (Returned 0, Some block_count, t2 @ [EvFreeZinfo zi])))"

text \<open>
  \<open>btrfs_prepare_device\<close> from the test of \<open>PREP_DEVICE_ZONED\<close> on: the zoned path
  (load the zone info, reset all zones), the discard path (a zero-length discard as
  a probe, then the bulk discard, whose result is dropped) or neither, and then the
  zeroing and the wipe. The zoned path tests \<open>ret < 0 || !zinfo\<close>.
\<close>

definition prepare_branch ::
  "env \<Rightarrow> params \<Rightarrow> 32 word \<Rightarrow> u64 \<Rightarrow> trace \<Rightarrow> prep_result" where
  "prepare_branch e ps opflags block_count t =
     (if opflags AND PREP_DEVICE_ZONED ps \<noteq> 0 then
        (let (rz, zi) = btrfs_get_zone_info e t;
             t1 = t @ [EvGetZoneInfo rz zi]
         in case zi of
              None \<Rightarrow> (Returned 1, None, t1)
            | Some z \<Rightarrow>
                if rz < 0 then (Returned 1, None, t1)
                else if btrfs_reset_all_zones e t1 z \<noteq> 0
                then prepare_err zi (t1 @ [EvResetAllZones z])
                else prepare_zero_wipe e ps zi opflags block_count
                       (t1 @ [EvResetAllZones z]))
      else if opflags AND PREP_DEVICE_DISCARD ps \<noteq> 0 then
        (let (rd, t1) = discard_range e 0 0 t
         in if rd = 0
            then prepare_zero_wipe e ps None opflags block_count
                   (snd (device_discard_blocks e 0 block_count t1))
            else prepare_zero_wipe e ps None opflags block_count t1)
      else prepare_zero_wipe e ps None opflags block_count t)"

text \<open>
  \<open>btrfs_prepare_device\<close>, started on an empty trace: \<open>fstat\<close>, the size, the cap by
  \<open>max_block_count\<close> (the \<open>min\<close> of two \<open>u64\<close>), and the rest above. The messages it
  prints (\<open>error\<close>, the \<open>PREP_DEVICE_VERBOSE\<close> lines) leave no event.
\<close>

definition btrfs_prepare_device ::
  "env \<Rightarrow> params \<Rightarrow> u64 \<Rightarrow> 32 word \<Rightarrow> prep_result" where
  "btrfs_prepare_device e ps max_block_count opflags =
     (let (r, st) = fstat e [];
          t1 = [EvFstat]
      in if r < 0 then (Returned 1, None, t1)
         else
           (let (size, t2) = btrfs_device_size e st t1
            in if size = 0 then (Returned 1, None, t2)
               else
                 (let block_count =
                        (if max_block_count \<noteq> 0 then min size max_block_count else size)
                  in prepare_branch e ps opflags block_count t2)))"

subsection \<open>Reading a trace\<close>

text \<open>The calls a function added to the trace it was given.\<close>

definition new_events :: "trace \<Rightarrow> trace \<Rightarrow> trace" where
  "new_events t t' = drop (length t) t'"

text \<open>The kinds of calls: discards, calls of the zero-fill, calls of the wiper.\<close>

fun is_discard :: "event \<Rightarrow> bool" where
  "is_discard (EvBlkDiscard s l) = True"
| "is_discard _ = False"

fun is_zero_fill :: "event \<Rightarrow> bool" where
  "is_zero_fill (EvMalloc n) = True"
| "is_zero_fill (EvPwriteZero s l) = True"
| "is_zero_fill (EvZoneResetRange z s l) = True"
| "is_zero_fill _ = False"

fun is_wipe :: "event \<Rightarrow> bool" where
  "is_wipe EvNewProbe = True"
| "is_wipe EvProbeSetDevice = True"
| "is_wipe EvLookupOffset = True"
| "is_wipe EvLookupMagic = True"
| "is_wipe (EvPwriteWipe s l) = True"
| "is_wipe (EvResetDevZone z i) = True"
| "is_wipe EvFsync = True"
| "is_wipe EvFreeProbe = True"
| "is_wipe _ = False"

definition is_step :: "event \<Rightarrow> bool" where
  "is_step ev = (is_discard ev \<or> is_zero_fill ev \<or> is_wipe ev)"

text \<open>A trace with no discard, no call of the zero-fill and no call of the wiper.\<close>

definition untouched :: "trace \<Rightarrow> bool" where
  "untouched t =
     (\<not> list_ex is_discard t \<and> \<not> list_ex is_zero_fill t \<and> \<not> list_ex is_wipe t)"

text \<open>
  The byte offsets a zeroing call is issued for: the range \<open>[start, start + len)\<close> of
  the \<open>pwrite\<close> of \<open>device_zero_blocks\<close>, and the range of the zone reset of
  \<open>zero_zone_blocks\<close>. The offsets are read unsigned, which is how \<open>zero_dev_clamped\<close>
  compares them with the device size.
\<close>

fun zero_range :: "event \<Rightarrow> nat set" where
  "zero_range (EvPwriteZero s l) = {unat s ..< unat s + unat l}"
| "zero_range (EvZoneResetRange z s l) = {unat s ..< unat s + unat l}"
| "zero_range _ = {}"

fun is_zero_op :: "event \<Rightarrow> bool" where
  "is_zero_op (EvPwriteZero s l) = True"
| "is_zero_op (EvZoneResetRange z s l) = True"
| "is_zero_op _ = False"

text \<open>The zeroing calls for a given start and length.\<close>

fun zero_call :: "u64 \<Rightarrow> u64 \<Rightarrow> event \<Rightarrow> bool" where
  "zero_call s l (EvMalloc n) = (n = l)"
| "zero_call s l (EvPwriteZero s' l') = (s' = s \<and> l' = l)"
| "zero_call s l (EvZoneResetRange z s' l') = (s' = s \<and> l' = l)"
| "zero_call s l _ = False"

text \<open>A call that zeroes nothing at or behind the byte offset \<open>D\<close>.\<close>

definition within :: "u64 \<Rightarrow> event \<Rightarrow> bool" where
  "within D ev = (zero_range ev \<subseteq> {0 ..< unat D})"

text \<open>
  The inputs on which the clamping turns the order of the bounds around: \<open>start\<close> is
  negative, so \<open>min_t(u64, ...)\<close> reads it as a number of at least \<open>2^63\<close>, while
  \<open>end = max(start, start + len)\<close> is not negative and lies below the device size.
\<close>

definition negative_start_end_inside :: "u64 \<Rightarrow> u64 \<Rightarrow> u64 \<Rightarrow> bool" where
  "negative_start_end_inside start len D =
     (sint start < 0 \<and> 0 \<le> sint (max_off_t start (start + len)) \<and>
      max_off_t start (start + len) < D)"

text \<open>
  The calls of the two ways a range is cleared: the zone reset, and the allocation
  and the \<open>pwrite\<close> of \<open>device_zero_blocks\<close>.
\<close>

fun is_zone_reset :: "event \<Rightarrow> bool" where
  "is_zone_reset (EvZoneResetRange z s l) = True"
| "is_zone_reset _ = False"

fun is_plain_call :: "event \<Rightarrow> bool" where
  "is_plain_call (EvMalloc n) = True"
| "is_plain_call (EvPwriteZero s l) = True"
| "is_plain_call _ = False"

text \<open>The test \<open>zinfo && zinfo->model == ZONED_HOST_MANAGED\<close>.\<close>

definition host_managed :: "zinfo option \<Rightarrow> bool" where
  "host_managed zi = (case zi of None \<Rightarrow> False | Some z \<Rightarrow> model z = ZONED_HOST_MANAGED)"

text \<open>
  The zone info says the device is host-managed and the range (start, length) lies
  within a sequential zone.
\<close>

definition resets_zone :: "env \<Rightarrow> zinfo option \<Rightarrow> u64 \<Rightarrow> u64 \<Rightarrow> bool" where
  "resets_zone e zi start len =
     (case zi of
        None \<Rightarrow> False
      | Some z \<Rightarrow> model z = ZONED_HOST_MANAGED \<and> range_in_sequential_zone e z start len)"

text \<open>
  Discard chunks are pairs (start, length). \<open>discards\<close> reads them off a trace and
  \<open>issued\<close> off the part of a trace a call added; \<open>evd\<close> is the ioctl of a chunk.
\<close>

definition evd :: "u64 \<times> u64 \<Rightarrow> event" where
  "evd c = EvBlkDiscard (fst c) (snd c)"

fun discards :: "trace \<Rightarrow> (u64 \<times> u64) list" where
  "discards [] = []"
| "discards (EvBlkDiscard s l # t) = (s, l) # discards t"
| "discards (ev # t) = discards t"

definition issued :: "trace \<Rightarrow> trace \<Rightarrow> (u64 \<times> u64) list" where
  "issued t t' = discards (new_events t t')"

text \<open>
  \<open>chain s cs\<close>: the first chunk starts at \<open>s\<close> and each further chunk starts where the
  one before it ends, in \<open>u64\<close> arithmetic. \<open>ascending cs\<close>: each further chunk starts
  at the byte offset behind the one before it, as numbers, so the addresses grow and
  neither a gap nor an overlap is left.
\<close>

fun chain :: "u64 \<Rightarrow> (u64 \<times> u64) list \<Rightarrow> bool" where
  "chain s [] = True"
| "chain s (c # cs) = (fst c = s \<and> chain (s + snd c) cs)"

fun ascending :: "(u64 \<times> u64) list \<Rightarrow> bool" where
  "ascending [] = True"
| "ascending [c] = True"
| "ascending (c # d # cs) =
     (unat (fst d) = unat (fst c) + unat (snd c) \<and> ascending (d # cs))"

text \<open>The sum of the chunk lengths.\<close>

definition total_len :: "(u64 \<times> u64) list \<Rightarrow> nat" where
  "total_len cs = sum_list (map (\<lambda>c. unat (snd c)) cs)"

text \<open>No chunk is empty or longer than 1 GiB, and all but the last are 1 GiB long.\<close>

definition chunk_sized :: "(u64 \<times> u64) list \<Rightarrow> bool" where
  "chunk_sized cs =
     (list_all (\<lambda>c. 0 < snd c \<and> snd c \<le> SZ_1G) cs \<and>
      list_all (\<lambda>c. snd c = SZ_1G) (butlast cs))"

text \<open>
  What \<open>discard_range\<close> returns for each chunk of a list, when the chunks are issued
  one after the other from the trace \<open>t\<close>.
\<close>

fun discard_codes :: "env \<Rightarrow> trace \<Rightarrow> (u64 \<times> u64) list \<Rightarrow> int list" where
  "discard_codes e t [] = []"
| "discard_codes e t (c # cs) =
     fst (discard_range e (fst c) (snd c) t) # discard_codes e (t @ [evd c]) cs"

text \<open>
  The three ways the probe of \<open>btrfs_wipe_existing_sb\<close> can go, for a call started on
  the trace \<open>t\<close>: the probe was created and attached to the device; the lookups found
  nothing (the test \<open>ret || len == 0 || off == NULL\<close>, on the trace behind
  \<open>blkid_probe_set_device\<close>); a signature was found.
\<close>

definition probe_attached :: "env \<Rightarrow> trace \<Rightarrow> bool" where
  "probe_attached e t =
     (blkid_new_probe e t \<and> blkid_probe_set_device e (t @ [EvNewProbe]) = 0)"

definition nothing_found :: "env \<Rightarrow> trace \<Rightarrow> bool" where
  "nothing_found e t =
     (let (r1, off) = lookup_SBMAGIC_OFFSET e t
      in if r1 \<noteq> 0 then True
         else (let (r2, l) = lookup_SBMAGIC e (t @ [EvLookupOffset])
               in r2 \<noteq> 0 \<or> l = 0 \<or> off = None))"

definition signature_found :: "env \<Rightarrow> trace \<Rightarrow> bool" where
  "signature_found e t =
     (probe_attached e t \<and> \<not> nothing_found e (t @ [EvNewProbe, EvProbeSetDevice]))"

text \<open>The two ways the wiper erases a signature: the zero write and the zone reset.\<close>

fun is_wipe_write :: "event \<Rightarrow> bool" where
  "is_wipe_write (EvPwriteWipe s l) = True"
| "is_wipe_write (EvResetDevZone z i) = True"
| "is_wipe_write _ = False"

text \<open>
  The zone infos a trace received from the provider, and the ones it freed
  (\<open>free(NULL)\<close> frees nothing). \<open>zinfo_released\<close>: every zone info received was freed
  once, at most one was received, and if one was, freeing it is the last call.
\<close>

fun zinfo_allocs :: "trace \<Rightarrow> zinfo list" where
  "zinfo_allocs [] = []"
| "zinfo_allocs (EvGetZoneInfo r (Some z) # t) = z # zinfo_allocs t"
| "zinfo_allocs (ev # t) = zinfo_allocs t"

fun zinfo_frees :: "trace \<Rightarrow> zinfo list" where
  "zinfo_frees [] = []"
| "zinfo_frees (EvFreeZinfo (Some z) # t) = z # zinfo_frees t"
| "zinfo_frees (ev # t) = zinfo_frees t"

definition zinfo_released :: "trace \<Rightarrow> bool" where
  "zinfo_released t =
     (zinfo_frees t = zinfo_allocs t \<and> length (zinfo_allocs t) \<le> 1 \<and>
      (zinfo_allocs t \<noteq> [] \<longrightarrow> last t = EvFreeZinfo (Some (hd (zinfo_allocs t)))))"

text \<open>
  What \<open>btrfs_prepare_device\<close> is answered at its first calls: the \<open>struct stat\<close>, the
  device size with the trace behind it, and the zone info the provider returns at
  the point where the zoned path asks for it.
\<close>

definition stat_at_prepare :: "env \<Rightarrow> stat" where
  "stat_at_prepare e = snd (fstat e [])"

definition size_at_prepare :: "env \<Rightarrow> u64 \<times> trace" where
  "size_at_prepare e = btrfs_device_size e (stat_at_prepare e) [EvFstat]"

definition zone_info_at_prepare :: "env \<Rightarrow> int \<times> zinfo option" where
  "zone_info_at_prepare e = btrfs_get_zone_info e (snd (size_at_prepare e))"

text \<open>
  The one assumption on the parameters: the offset of every mirror the loop visits is
  not negative as an \<open>off_t\<close>.
\<close>

definition sb_offsets_nonneg :: "params \<Rightarrow> bool" where
  "sb_offsets_nonneg ps =
     list_all (\<lambda>i. 0 \<le> sint (btrfs_sb_offset ps i)) [0 .. BTRFS_SUPER_MIRROR_MAX ps - 1]"

subsection \<open>Concrete environments\<close>

text \<open>
  Inputs to run the model on. \<open>upstream_params\<close> holds the values of the btrfs-progs
  headers: three mirrors at 64 KiB, 64 MiB and 256 GiB, superblocks of 4 KiB, a
  scratch buffer of 8 KiB and the flag bits 1, 2, 4 and 8. \<open>zinfo_hm\<close> is a
  host-managed device with eight zones of 256 MiB.
\<close>

definition upstream_params :: params where
  "upstream_params =
     \<lparr>BTRFS_SUPER_MIRROR_MAX = 3,
      btrfs_sb_offset = (\<lambda>i. if i \<noteq> 0 then push_bit (nat (12 * i)) 0x4000 else 0x10000),
      BTRFS_SUPER_INFO_SIZE = 4096,
      BUFSIZ = 8192,
      PREP_DEVICE_ZERO_END = 1,
      PREP_DEVICE_DISCARD = 2,
      PREP_DEVICE_VERBOSE = 4,
      PREP_DEVICE_ZONED = 8\<rparr>"

definition zinfo_hm :: zinfo where
  "zinfo_hm = \<lparr>model = ZONED_HOST_MANAGED, zone_size = 0x10000000, nr_zones = 8\<rparr>"

text \<open>
  \<open>env_file\<close>: a regular file of 2 GiB with no signature on it. Both ioctls fail on
  it, allocations of up to 1 GiB, all writes and all zone resets succeed, no zone
  info can be loaded and no zone is sequential.
\<close>

definition env_file :: env where
  "env_file =
     \<lparr>fstat = (\<lambda>t. (0, \<lparr>st_mode = 0x81A4, st_size = 0x80000000\<rparr>)),
      ioctl_BLKGETSIZE64 = (\<lambda>t. (- 1, 0)),
      ioctl_BLKDISCARD = (\<lambda>t start len. (- 1, 25)),
      malloc = (\<lambda>t n. n \<le> 0x40000000),
      pwrite = (\<lambda>t len off. len),
      zone_reset_range = (\<lambda>t z start len. 0),
      btrfs_get_zone_info = (\<lambda>t. (- 1, None)),
      btrfs_reset_all_zones = (\<lambda>t z. 0),
      btrfs_reset_dev_zone = (\<lambda>t z i. 0),
      zone_is_sequential = (\<lambda>zi off. False),
      blkid_new_probe = (\<lambda>t. True),
      blkid_probe_set_device = (\<lambda>t. 0),
      lookup_SBMAGIC_OFFSET = (\<lambda>t. (- 1, None)),
      lookup_SBMAGIC = (\<lambda>t. (- 1, 0))\<rparr>"

text \<open>
  Variations of \<open>env_file\<close>: \<open>fstat\<close> reports a FIFO; the probe cannot be attached to
  the device; a signature of 8 bytes is found at offset 0x10040; discards succeed;
  the discard that starts at 0x40001000 fails with \<open>EIO\<close>; the zone info \<open>zinfo_hm\<close>
  is loaded.
\<close>

definition env_fifo :: env where
  "env_fifo = env_file\<lparr>fstat := (\<lambda>t. (0, \<lparr>st_mode = 0x11A4, st_size = 0\<rparr>))\<rparr>"

definition env_noattach :: env where
  "env_noattach = env_file\<lparr>blkid_probe_set_device := (\<lambda>t. - 1)\<rparr>"

definition env_signature :: env where
  "env_signature =
     env_file\<lparr>lookup_SBMAGIC_OFFSET := (\<lambda>t. (0, Some 0x10040)),
       lookup_SBMAGIC := (\<lambda>t. (0, 8))\<rparr>"

definition env_discard_ok :: env where
  "env_discard_ok = env_file\<lparr>ioctl_BLKDISCARD := (\<lambda>t start len. (0, 0))\<rparr>"

definition env_discard_eio :: env where
  "env_discard_eio =
     env_file\<lparr>ioctl_BLKDISCARD :=
       (\<lambda>t start len. if start = 0x40001000 then (- 1, 5) else (0, 0))\<rparr>"

definition env_zoned :: env where
  "env_zoned = env_file\<lparr>btrfs_get_zone_info := (\<lambda>t. (0, Some zinfo_hm))\<rparr>"

text \<open>
  Two more: every zone is sequential; \<open>malloc(0)\<close> returns \<open>NULL\<close>, which C leaves to
  the implementation, while every other allocation of up to 1 GiB succeeds.
\<close>

definition env_sequential :: env where
  "env_sequential = env_file\<lparr>zone_is_sequential := (\<lambda>zi off. True)\<rparr>"


section \<open>Properties\<close>

subsection \<open>Range discard\<close>

lemma discard_range_trace: "snd (discard_range e s l t) = t @ [EvBlkDiscard s l]"
  by (simp add: discard_range_def split_beta)

lemma min_t_u64_min: "min_t_u64 a b = min a b"
  by (auto simp: min_t_u64_def min_def)

lemma unat_chunk_rest:
  assumes "0 < (len :: u64)"
  shows "unat (len - min len SZ_1G) + unat (min len SZ_1G) = unat len"
    and "0 < min len SZ_1G"
proof -
  show "0 < min len SZ_1G"
    using assms by (simp add: SZ_1G_def min_def)
  have le: "min len SZ_1G \<le> len" by simp
  then have "unat (len - min len SZ_1G) = unat len - unat (min len SZ_1G)"
    by (simp add: unat_sub)
  moreover have "unat (min len SZ_1G) \<le> unat len"
    using le by (simp add: word_le_nat_alt)
  ultimately show "unat (len - min len SZ_1G) + unat (min len SZ_1G) = unat len"
    by linarith
qed

lemma total_len_pos:
  "cs \<noteq> [] \<Longrightarrow> list_all (\<lambda>c. 0 < snd c \<and> snd c \<le> SZ_1G) cs \<Longrightarrow> 0 < total_len cs"
  by (cases cs) (auto simp: total_len_def unat_gt_0 word_greater_zero_iff)

text \<open>
  The loop, for every input: the calls it adds are the discards of a chain of chunks
  from \<open>start\<close>; the lengths add up to \<open>len\<close> when it returns 0; when it returns
  something else, that is the code of the last chunk issued, and the chunks before
  it returned 0.
\<close>

lemma discard_loop_chunks:
  "\<exists>cs. snd (device_discard_blocks e start len t) = t @ map evd cs \<and>
        chain start cs \<and> chunk_sized cs \<and> total_len cs \<le> unat len \<and>
        (fst (device_discard_blocks e start len t) = 0 \<longrightarrow>
           total_len cs = unat len \<and> list_all (\<lambda>r. r = 0) (discard_codes e t cs)) \<and>
        (fst (device_discard_blocks e start len t) \<noteq> 0 \<longrightarrow>
           cs \<noteq> [] \<and>
           last (discard_codes e t cs) = fst (device_discard_blocks e start len t) \<and>
           list_all (\<lambda>r. r = 0) (butlast (discard_codes e t cs)))"
proof (induction e start len t rule: device_discard_blocks.induct)
  case (1 e start len t)
  show ?case
  proof (cases "0 < len")
    case False
    then have "device_discard_blocks e start len t = (0, t)"
      by (simp add: device_discard_blocks.simps [of e start len t])
    moreover have "len = 0"
      using False by (simp add: word_greater_zero_iff)
    ultimately show ?thesis
      by (intro exI [of _ "[]"]) (simp add: chunk_sized_def total_len_def)
  next
    case True
    define c where "c = min_t_u64 len SZ_1G"
    have cmin: "c = min len SZ_1G"
      by (simp add: c_def min_t_u64_min)
    define r where "r = fst (discard_range e start c t)"
    define t1 where "t1 = t @ [EvBlkDiscard start c]"
    have dr: "discard_range e start c t = (r, t1)"
      by (simp add: r_def t1_def prod_eq_iff discard_range_trace)
    have cpos: "0 < c" and csum: "unat (len - c) + unat c = unat len"
      using unat_chunk_rest [OF True] by (simp_all add: cmin)
    have cle: "c \<le> SZ_1G"
      by (simp add: cmin)
    show ?thesis
    proof (cases "r = 0")
      case False
      then have res: "device_discard_blocks e start len t = (r, t1)"
        using True dr
        by (simp add: device_discard_blocks.simps [of e start len t] c_def [symmetric])
      show ?thesis
        using res False cpos cle csum
        by (intro exI [of _ "[(start, c)]"])
           (simp add: chunk_sized_def total_len_def evd_def t1_def r_def)
    next
      case r0: True
      have res: "device_discard_blocks e start len t =
          device_discard_blocks e (start + c) (len - c) t1"
        using True dr r0
        by (simp add: device_discard_blocks.simps [of e start len t] c_def [symmetric])
      let ?rest = "device_discard_blocks e (start + c) (len - c) t1"
      from "1.IH" [OF True c_def dr [symmetric] refl] r0
      obtain cs where cs: "snd ?rest = t1 @ map evd cs"
        "chain (start + c) cs" "chunk_sized cs" "total_len cs \<le> unat (len - c)"
        "fst ?rest = 0 \<longrightarrow>
           total_len cs = unat (len - c) \<and> list_all (\<lambda>r. r = 0) (discard_codes e t1 cs)"
        "fst ?rest \<noteq> 0 \<longrightarrow>
           cs \<noteq> [] \<and> last (discard_codes e t1 cs) = fst ?rest \<and>
           list_all (\<lambda>r. r = 0) (butlast (discard_codes e t1 cs))"
        by auto
      have full: "c = SZ_1G" if ne: "cs \<noteq> []"
      proof -
        have "0 < total_len cs"
          using ne cs(3) by (simp add: total_len_pos chunk_sized_def)
        then have "0 < unat (len - c)" using cs(4) by linarith
        then have "unat c < unat len" using csum by linarith
        then have "c \<noteq> len" by auto
        then show "c = SZ_1G" by (auto simp: cmin min_def)
      qed
      have codes_ne: "discard_codes e u cs \<noteq> [] \<longleftrightarrow> cs \<noteq> []" for u
        by (cases cs) simp_all
      let ?cs = "(start, c) # cs"
      have sized: "chunk_sized ?cs"
        using cs(3) cpos cle full by (cases cs) (simp_all add: chunk_sized_def)
      have tot: "total_len ?cs = unat c + total_len cs"
        by (simp add: total_len_def)
      have codes: "discard_codes e t ?cs = 0 # discard_codes e t1 cs"
        using r0 by (simp add: r_def evd_def t1_def)
      show ?thesis
      proof (intro exI [of _ ?cs] conjI impI)
        show "snd (device_discard_blocks e start len t) = t @ map evd ?cs"
          using cs(1) by (simp add: res t1_def evd_def)
        show "chain start ?cs" using cs(2) by simp
        show "chunk_sized ?cs" by (rule sized)
        show "total_len ?cs \<le> unat len" using cs(4) csum tot by linarith
      next
        assume "fst (device_discard_blocks e start len t) = 0"
        then have z: "fst ?rest = 0" by (simp add: res)
        show "total_len ?cs = unat len" using cs(5) z csum tot by linarith
        show "list_all (\<lambda>r. r = 0) (discard_codes e t ?cs)"
          using cs(5) z unfolding codes by simp
      next
        assume "fst (device_discard_blocks e start len t) \<noteq> 0"
        then have nz: "fst ?rest \<noteq> 0" by (simp add: res)
        show "?cs \<noteq> []" by simp
        have "cs \<noteq> []" using cs(6) nz by simp
        then have cne: "discard_codes e t1 cs \<noteq> []" by (simp add: codes_ne)
        show "last (discard_codes e t ?cs) = fst (device_discard_blocks e start len t)"
          using cs(6) nz cne unfolding codes res by simp
        show "list_all (\<lambda>r. r = 0) (butlast (discard_codes e t ?cs))"
          using cs(6) nz cne unfolding codes by simp
      qed
    qed
  qed
qed

lemma discards_map_evd: "discards (map evd cs) = cs"
  by (induction cs) (simp_all add: evd_def)

lemma chain_hd: "chain s cs \<Longrightarrow> cs \<noteq> [] \<Longrightarrow> fst (hd cs) = s"
  by (cases cs) simp_all

lemma chain_ascending:
  assumes "chain s cs" and "list_all (\<lambda>c. 0 < snd c) cs"
    and "unat s + total_len cs \<le> 2 ^ 64"
  shows "ascending cs"
  using assms
proof (induction cs arbitrary: s)
  case Nil
  then show ?case by simp
next
  case (Cons c cs)
  show ?case
  proof (cases cs)
    case Nil
    then show ?thesis by simp
  next
    case (Cons d ds)
    have s: "fst c = s" and d: "fst d = s + snd c"
      using Cons.prems(1) Cons by simp_all
    have "0 < unat (snd d)"
      using Cons.prems(2) Cons by (simp add: unat_gt_0 word_greater_zero_iff)
    then have "unat s + unat (snd c) < 2 ^ 64"
      using Cons.prems(3) Cons by (simp add: total_len_def)
    then have u: "unat (s + snd c) = unat s + unat (snd c)"
      by (simp add: unat_add_lem [THEN iffD1])
    have "ascending cs"
    proof (rule Cons.IH)
      show "chain (s + snd c) cs" using Cons.prems(1) by simp
      show "list_all (\<lambda>c. 0 < snd c) cs" using Cons.prems(2) by simp
      show "unat (s + snd c) + total_len cs \<le> 2 ^ 64"
        using Cons.prems(3) u by (simp add: total_len_def)
    qed
    then show ?thesis using Cons s d u by simp
  qed
qed

text \<open>
  C2. For every \<open>(start, len)\<close> with \<open>len > 0\<close> that is a range of the 64-bit address
  space, \<open>start + len \<le> 2^64\<close>, \<open>device_discard_blocks\<close> adds nothing but discards to
  the trace; the chunks begin at \<open>start\<close>, each begins at the byte behind the one
  before it (ascending addresses, no gap, no overlap), none is empty or longer than
  1 GiB and all but the last are 1 GiB. When it returns 0 the lengths add up to
  \<open>len\<close> and every \<open>discard_range\<close> returned 0. When it returns another value, that
  value is what \<open>discard_range\<close> returned for the last chunk issued, and all chunks
  before it returned 0.
\<close>

theorem device_discard_blocks_chunking:
  assumes "0 < len" and "unat start + unat len \<le> 2 ^ 64"
  shows "snd (device_discard_blocks e start len t) =
       t @ map evd (issued t (snd (device_discard_blocks e start len t))) \<and>
     issued t (snd (device_discard_blocks e start len t)) \<noteq> [] \<and>
     fst (hd (issued t (snd (device_discard_blocks e start len t)))) = start \<and>
     ascending (issued t (snd (device_discard_blocks e start len t))) \<and>
     chunk_sized (issued t (snd (device_discard_blocks e start len t))) \<and>
     total_len (issued t (snd (device_discard_blocks e start len t))) \<le> unat len \<and>
     (fst (device_discard_blocks e start len t) = 0 \<longrightarrow>
        total_len (issued t (snd (device_discard_blocks e start len t))) = unat len \<and>
        list_all (\<lambda>r. r = 0)
          (discard_codes e t (issued t (snd (device_discard_blocks e start len t))))) \<and>
     (fst (device_discard_blocks e start len t) \<noteq> 0 \<longrightarrow>
        last (discard_codes e t (issued t (snd (device_discard_blocks e start len t)))) =
          fst (device_discard_blocks e start len t) \<and>
        list_all (\<lambda>r. r = 0)
          (butlast
            (discard_codes e t (issued t (snd (device_discard_blocks e start len t))))))"
proof -
  let ?r = "device_discard_blocks e start len t"
  obtain cs where cs: "snd ?r = t @ map evd cs" "chain start cs" "chunk_sized cs"
      "total_len cs \<le> unat len"
      "fst ?r = 0 \<longrightarrow> total_len cs = unat len \<and> list_all (\<lambda>r. r = 0) (discard_codes e t cs)"
      "fst ?r \<noteq> 0 \<longrightarrow> cs \<noteq> [] \<and> last (discard_codes e t cs) = fst ?r \<and>
         list_all (\<lambda>r. r = 0) (butlast (discard_codes e t cs))"
    using discard_loop_chunks [of e start len t] by blast
  have iss: "issued t (snd ?r) = cs"
    by (simp add: issued_def new_events_def cs(1) discards_map_evd)
  have "0 < unat len"
    using assms(1) by (simp add: unat_gt_0 word_greater_zero_iff)
  then have ne: "cs \<noteq> []"
    using cs(5,6) by (cases "fst ?r = 0") (auto simp: total_len_def)
  have pos: "list_all (\<lambda>c. 0 < snd c) cs"
    using cs(3) by (simp add: chunk_sized_def list_all_iff)
  have asc: "ascending cs"
    using cs(2) pos
  proof (rule chain_ascending)
    show "unat start + total_len cs \<le> 2 ^ 64" using cs(4) assms(2) by linarith
  qed
  show ?thesis
    unfolding iss using cs ne asc chain_hd [OF cs(2) ne] by simp
qed

theorem device_discard_blocks_chunking_witness:
  "(0 :: u64) < 0x80000001 \<and> unat (0x1000 :: u64) + unat (0x80000001 :: u64) \<le> 2 ^ 64 \<and>
   device_discard_blocks env_discard_ok 0x1000 0x80000001 [] =
     (0, [EvBlkDiscard 0x1000 0x40000000, EvBlkDiscard 0x40001000 0x40000000,
          EvBlkDiscard 0x80001000 1]) \<and>
   device_discard_blocks env_discard_eio 0x1000 0x80000001 [] =
     (5, [EvBlkDiscard 0x1000 0x40000000, EvBlkDiscard 0x40001000 0x40000000]) \<and>
   ascending (issued [] (snd (device_discard_blocks env_discard_ok 0x1000 0x80000001 []))) \<and>
   total_len (issued [] (snd (device_discard_blocks env_discard_ok 0x1000 0x80000001 []))) =
     unat (0x80000001 :: u64) \<and>
   last (discard_codes env_discard_eio []
       (issued [] (snd (device_discard_blocks env_discard_eio 0x1000 0x80000001 [])))) = 5"
proof -
  have h1: "(0 :: u64) < 0x80000001" by simp
  have h2: "unat (0x1000 :: u64) + unat (0x80000001 :: u64) \<le> 2 ^ 64" by simp
  have ok: "device_discard_blocks env_discard_ok 0x1000 0x80000001 [] =
     (0, [EvBlkDiscard 0x1000 0x40000000, EvBlkDiscard 0x40001000 0x40000000,
          EvBlkDiscard 0x80001000 1])"
    by code_simp
  have eio: "device_discard_blocks env_discard_eio 0x1000 0x80000001 [] =
     (5, [EvBlkDiscard 0x1000 0x40000000, EvBlkDiscard 0x40001000 0x40000000])"
    by code_simp
  have a: "ascending (issued [] (snd (device_discard_blocks env_discard_ok 0x1000 0x80000001 []))) \<and>
      total_len (issued [] (snd (device_discard_blocks env_discard_ok 0x1000 0x80000001 []))) =
        unat (0x80000001 :: u64)"
    using device_discard_blocks_chunking [OF h1 h2, of env_discard_ok "[]"] by (simp add: ok)
  have b: "last (discard_codes env_discard_eio []
       (issued [] (snd (device_discard_blocks env_discard_eio 0x1000 0x80000001 [])))) = 5"
    using device_discard_blocks_chunking [OF h1 h2, of env_discard_eio "[]"] by (simp add: eio)
  from h1 h2 ok eio a b show ?thesis by blast
qed

text \<open>
  The bulk discard of \<open>btrfs_prepare_device\<close>, the one call in the file, starts at 0:
  its range is in the address space whatever the block count.
\<close>

lemma bulk_discard_in_address_space: "unat (0 :: u64) + unat (len :: u64) \<le> 2 ^ 64"
proof -
  have "unat len < 2 ^ 64"
    using unsigned_less [of len, where ?'a = nat] by simp
  then show ?thesis by simp
qed

text \<open>
  The bound is tight. Past the end of the address space \<open>start += chunk_size\<close> wraps
  around: for \<open>start = 2^64 - 2^30\<close> and \<open>len = 2^30 + 1\<close>, with every discard
  succeeding, the second chunk is issued at address 0.
\<close>

lemma discard_start_wraps:
  "device_discard_blocks env_discard_ok 0xFFFFFFFFC0000000 0x40000001 [] =
     (0, [EvBlkDiscard 0xFFFFFFFFC0000000 0x40000000, EvBlkDiscard 0 1]) \<and>
   \<not> ascending [(0xFFFFFFFFC0000000, 0x40000000), (0, 1)]"
proof -
  have "device_discard_blocks env_discard_ok 0xFFFFFFFFC0000000 0x40000001 [] =
     (0, [EvBlkDiscard 0xFFFFFFFFC0000000 0x40000000, EvBlkDiscard 0 1])"
    by code_simp
  then show ?thesis by simp
qed

subsection \<open>Clamped zero-fill\<close>

lemma uint_of_nonneg_sint:
  fixes a :: u64
  assumes "0 \<le> sint a"
  shows "uint a = sint a"
proof -
  have "sint a < 2 ^ 63" using sint_lt [of a] by simp
  then have "sint a < 2 ^ 64" by simp
  then have "take_bit 64 (sint a) = sint a"
    using assms by (simp add: take_bit_int_eq_self)
  then show ?thesis using uint_sint [of a] by simp
qed

lemma sint_nonneg_le:
  fixes a b :: u64
  assumes "0 \<le> sint a" and "sint a \<le> sint b"
  shows "a \<le> b"
proof -
  have "uint a = sint a" using assms(1) by (rule uint_of_nonneg_sint)
  moreover have "uint b = sint b" using assms by (intro uint_of_nonneg_sint) simp
  ultimately show ?thesis using assms(2) by (simp add: word_le_def)
qed

lemma uint_of_neg_sint:
  fixes a :: u64
  assumes "sint a < 0"
  shows "uint a = sint a + 2 ^ 64"
proof -
  have lo: "- (2 ^ 63) \<le> sint a" using sint_ge [of a] by simp
  have "uint a = (sint a) mod 2 ^ 64"
    using uint_sint [of a] by (simp add: take_bit_eq_mod)
  also have "\<dots> = (sint a + 2 ^ 64) mod 2 ^ 64" by simp
  also have "\<dots> = sint a + 2 ^ 64"
    using lo assms by (intro mod_pos_pos_trivial) simp_all
  finally show ?thesis .
qed

lemma sint_neg_le:
  fixes a b :: u64
  assumes "sint b < 0" and "sint a \<le> sint b"
  shows "a \<le> b"
proof -
  have "uint b = sint b + 2 ^ 64" using assms(1) by (rule uint_of_neg_sint)
  moreover have "uint a = sint a + 2 ^ 64" using assms by (intro uint_of_neg_sint) simp
  ultimately show ?thesis using assms(2) by (simp add: word_le_def)
qed

lemma max_off_t_ge: "sint x \<le> sint (max_off_t x y)"
  by (simp add: max_off_t_def)

lemma clamped_end_le: "clamped_end start len D \<le> D"
  by (simp add: clamped_end_def min_t_u64_min)

text \<open>A start that is not negative stays below the end, before and after clamping.\<close>

lemma clamped_order_nonneg:
  assumes "0 \<le> sint start"
  shows "clamped_start start D \<le> clamped_end start len D"
proof -
  have "start \<le> max_off_t start (start + len)"
    using assms max_off_t_ge by (rule sint_nonneg_le)
  then show ?thesis
    by (auto simp: clamped_start_def clamped_end_def min_t_u64_min min_def)
qed

text \<open>
  The tail call \<open>(D - l, l)\<close>: \<open>start + len\<close> is \<open>D\<close> again, so the end is \<open>D\<close> or the
  start itself, whatever the sign of the start.
\<close>

lemma clamped_order_tail: "clamped_start (D - l) D \<le> clamped_end (D - l) l D"
  by (simp add: clamped_start_def clamped_end_def min_t_u64_min max_off_t_def)

text \<open>
  The clamped start is at most the clamped end on every input but the ones of
  \<open>negative_start_end_inside\<close>, and on none of those.
\<close>

lemma clamped_order:
  assumes "\<not> negative_start_end_inside start len D"
  shows "clamped_start start D \<le> clamped_end start len D"
proof -
  let ?e = "max_off_t start (start + len)"
  consider "0 \<le> sint start" | "sint ?e < 0" | "D \<le> ?e"
    using assms by (auto simp: negative_start_end_inside_def)
  then show ?thesis
  proof cases
    case 1
    then show ?thesis by (rule clamped_order_nonneg)
  next
    case 2
    have "start \<le> ?e" using 2 max_off_t_ge by (rule sint_neg_le)
    then show ?thesis
      by (auto simp: clamped_start_def clamped_end_def min_t_u64_min min_def)
  next
    case 3
    then show ?thesis
      by (auto simp: clamped_start_def clamped_end_def min_t_u64_min min_def)
  qed
qed

lemma clamped_order_iff:
  "clamped_start start D \<le> clamped_end start len D \<longleftrightarrow>
     \<not> negative_start_end_inside start len D"
proof
  assume "\<not> negative_start_end_inside start len D"
  then show "clamped_start start D \<le> clamped_end start len D" by (rule clamped_order)
next
  assume le: "clamped_start start D \<le> clamped_end start len D"
  show "\<not> negative_start_end_inside start len D"
  proof
    let ?e = "max_off_t start (start + len)"
    assume "negative_start_end_inside start len D"
    then have a: "sint start < 0" "0 \<le> sint ?e" "?e < D"
      by (simp_all add: negative_start_end_inside_def)
    have "uint ?e = sint ?e" using a(2) by (rule uint_of_nonneg_sint)
    moreover have "uint start = sint start + 2 ^ 64" using a(1) by (rule uint_of_neg_sint)
    moreover have "sint ?e < 2 ^ 63" using sint_lt [of ?e] by simp
    moreover have "- (2 ^ 63) \<le> sint start" using sint_ge [of start] by simp
    ultimately have "uint ?e < uint start" by simp
    then have "?e < start" by (simp add: word_less_def)
    then show False
      using le a(3)
      by (auto simp: clamped_start_def clamped_end_def min_t_u64_min min_def split: if_splits)
  qed
qed

lemma range_of_ordered:
  fixes a b :: u64
  assumes "a \<le> b"
  shows "{unat a ..< unat a + unat (b - a)} = {unat a ..< unat b}"
proof -
  have "unat (b - a) = unat b - unat a" using assms by (simp add: unat_sub)
  moreover have "unat a \<le> unat b" using assms by (simp add: word_le_nat_alt)
  ultimately show ?thesis by simp
qed

lemma clamped_range_nonneg:
  assumes "0 \<le> sint start"
  shows "{unat (clamped_start start D) ..< unat (clamped_end start len D)} =
     {unat start ..< unat (max_off_t start (start + len))} \<inter> {0 ..< unat D}"
proof -
  have "start \<le> max_off_t start (start + len)"
    using assms max_off_t_ge by (rule sint_nonneg_le)
  then show ?thesis
    by (auto simp: clamped_start_def clamped_end_def min_t_u64_min min_def word_le_nat_alt
        word_less_nat_alt)
qed

lemma device_zero_blocks_events:
  "\<exists>ys. snd (device_zero_blocks e s l t) = t @ ys \<and> list_all (zero_call s l) ys"
  by (simp add: device_zero_blocks_def Let_def)

lemma zero_zone_blocks_events:
  "\<exists>ys. snd (zero_zone_blocks e z s l t) = t @ ys \<and> list_all (zero_call s l) ys"
  using device_zero_blocks_events [of e s l t] by (simp add: zero_zone_blocks_def)

lemma zero_dev_clamped_cases:
  "zero_dev_clamped e zi start len D t =
     (if host_managed zi
      then zero_zone_blocks e (the zi) (clamped_start start D)
             (clamped_end start len D - clamped_start start D) t
      else device_zero_blocks e (clamped_start start D)
             (clamped_end start len D - clamped_start start D) t)"
  by (simp add: zero_dev_clamped_def host_managed_def Let_def split: option.splits)

text \<open>
  The two ways \<open>zero_dev_clamped\<close> ends: the zone reset, on a host-managed device for
  a range within a sequential zone, and \<open>device_zero_blocks\<close>, in every other case.
\<close>

lemma zero_dev_clamped_resets:
  assumes "resets_zone e zi (clamped_start start D)
      (clamped_end start len D - clamped_start start D)"
  shows "zero_dev_clamped e zi start len D t =
     (zone_reset_range e t (the zi) (clamped_start start D)
        (clamped_end start len D - clamped_start start D),
      t @ [EvZoneResetRange (the zi) (clamped_start start D)
        (clamped_end start len D - clamped_start start D)])"
  using assms
  by (cases zi)
     (simp_all add: resets_zone_def zero_dev_clamped_def zero_zone_blocks_def Let_def)

lemma zero_dev_clamped_zero_fills:
  assumes "\<not> resets_zone e zi (clamped_start start D)
      (clamped_end start len D - clamped_start start D)"
  shows "zero_dev_clamped e zi start len D t =
     device_zero_blocks e (clamped_start start D)
       (clamped_end start len D - clamped_start start D) t"
  using assms
  by (cases zi)
     (simp_all add: resets_zone_def zero_dev_clamped_def zero_zone_blocks_def Let_def)

lemma device_zero_blocks_new_events:
  "new_events t (snd (device_zero_blocks e s l t)) =
     (if \<not> malloc e t l then [EvMalloc l] else [EvMalloc l, EvPwriteZero s l])"
  by (simp add: device_zero_blocks_def new_events_def Let_def)

lemma zero_dev_clamped_events:
  "\<exists>ys. snd (zero_dev_clamped e zi start len D t) = t @ ys \<and>
     list_all (zero_call (clamped_start start D)
       (clamped_end start len D - clamped_start start D)) ys"
  using device_zero_blocks_events
      [of e "clamped_start start D" "clamped_end start len D - clamped_start start D" t]
    zero_zone_blocks_events
      [of e "the zi" "clamped_start start D"
        "clamped_end start len D - clamped_start start D" t]
  by (simp add: zero_dev_clamped_cases)

lemma zero_call_range:
  assumes "zero_call s l ev"
  shows "zero_range ev \<subseteq> {unat s ..< unat s + unat l}"
    and "is_zero_op ev \<Longrightarrow> zero_range ev = {unat s ..< unat s + unat l}"
  using assms by (cases ev; simp)+

lemma zero_call_is_zero_fill: "zero_call s l ev \<Longrightarrow> is_zero_fill ev"
  by (cases ev) simp_all

text \<open>
  The three calls of \<open>zero_dev_clamped\<close> in the file, at 0, at a mirror offset and at
  \<open>block_count - ZERO_DEV_BYTES\<close>, are none of the inputs of
  \<open>negative_start_end_inside\<close>; for the mirrors this takes an offset that is not
  negative as an \<open>off_t\<close>.
\<close>

lemma call_sites_in_domain:
  "\<not> negative_start_end_inside 0 ZERO_DEV_BYTES D"
  "0 \<le> sint (btrfs_sb_offset ps i) \<Longrightarrow>
     \<not> negative_start_end_inside (btrfs_sb_offset ps i) (BTRFS_SUPER_INFO_SIZE ps) D"
  "\<not> negative_start_end_inside (D - ZERO_DEV_BYTES) ZERO_DEV_BYTES D"
proof -
  show "\<not> negative_start_end_inside 0 ZERO_DEV_BYTES D"
    by (simp add: negative_start_end_inside_def)
  show "\<not> negative_start_end_inside (btrfs_sb_offset ps i) (BTRFS_SUPER_INFO_SIZE ps) D"
    if "0 \<le> sint (btrfs_sb_offset ps i)"
    using that by (simp add: negative_start_end_inside_def)
  show "\<not> negative_start_end_inside (D - ZERO_DEV_BYTES) ZERO_DEV_BYTES D"
    using clamped_order_tail [of D ZERO_DEV_BYTES] by (simp add: clamped_order_iff)
qed

text \<open>
  C1. For every \<open>(start, len, dev_size)\<close> that \<open>zero_dev_clamped\<close> can be called with,
  which is every input but a negative \<open>start\<close> whose \<open>end = max(start, start + len)\<close>
  is not negative and below \<open>dev_size\<close>: it clamps \<open>start\<close> and \<open>end\<close> to at most
  \<open>dev_size\<close> with \<open>start \<le> end\<close>, issues its calls for exactly the clamped start
  and the length \<open>end - start\<close>, and the range it operates on lies between the
  clamped bounds, so inside \<open>[0, dev_size)\<close>. For a \<open>start\<close> that is not negative that
  range is exactly the part of \<open>[start, end)\<close> that lies in \<open>[0, dev_size)\<close>.
\<close>

theorem zero_dev_clamped_in_bounds:
  assumes "\<not> negative_start_end_inside start len D"
  shows "clamped_start start D = min start D \<and>
     clamped_end start len D = min (max_off_t start (start + len)) D \<and>
     clamped_start start D \<le> clamped_end start len D \<and>
     clamped_end start len D \<le> D \<and>
     list_all (zero_call (clamped_start start D)
         (clamped_end start len D - clamped_start start D))
       (new_events t (snd (zero_dev_clamped e zi start len D t))) \<and>
     (\<forall>ev \<in> set (new_events t (snd (zero_dev_clamped e zi start len D t))).
        zero_range ev \<subseteq> {0 ..< unat D} \<and>
        zero_range ev
          \<subseteq> {unat (clamped_start start D) ..< unat (clamped_end start len D)} \<and>
        (0 \<le> sint start \<and> is_zero_op ev \<longrightarrow>
           zero_range ev =
             {unat start ..< unat (max_off_t start (start + len))} \<inter> {0 ..< unat D}))"
proof -
  let ?s = "clamped_start start D" and ?e = "clamped_end start len D"
  obtain ys where ys: "snd (zero_dev_clamped e zi start len D t) = t @ ys"
    "list_all (zero_call ?s (?e - ?s)) ys"
    using zero_dev_clamped_events by blast
  have new: "new_events t (snd (zero_dev_clamped e zi start len D t)) = ys"
    by (simp add: ys(1) new_events_def)
  have ord: "?s \<le> ?e" using assms by (rule clamped_order)
  have rng: "{unat ?s ..< unat ?s + unat (?e - ?s)} = {unat ?s ..< unat ?e}"
    using ord by (rule range_of_ordered)
  have top: "unat ?e \<le> unat D"
    using clamped_end_le [of start len D] by (simp add: word_le_nat_alt)
  have "zero_range ev \<subseteq> {0 ..< unat D} \<and>
        zero_range ev \<subseteq> {unat ?s ..< unat ?e} \<and>
        (0 \<le> sint start \<and> is_zero_op ev \<longrightarrow>
           zero_range ev =
             {unat start ..< unat (max_off_t start (start + len))} \<inter> {0 ..< unat D})"
    if "ev \<in> set ys" for ev
  proof -
    have zc: "zero_call ?s (?e - ?s) ev"
      using ys(2) that by (simp add: list_all_iff)
    have sub: "zero_range ev \<subseteq> {unat ?s ..< unat ?e}"
      using zero_call_range(1) [OF zc] rng by simp
    then have "zero_range ev \<subseteq> {0 ..< unat D}"
      using top by auto
    moreover have "zero_range ev =
        {unat start ..< unat (max_off_t start (start + len))} \<inter> {0 ..< unat D}"
      if "0 \<le> sint start" "is_zero_op ev"
      using zero_call_range(2) [OF zc that(2)] rng clamped_range_nonneg [OF that(1)] by simp
    ultimately show ?thesis using sub by blast
  qed
  then show ?thesis
    using ord ys(2)
    by (simp add: new clamped_end_le clamped_start_def clamped_end_def min_t_u64_min)
qed

theorem zero_dev_clamped_in_bounds_witness:
  "\<not> negative_start_end_inside 0x7FF00000 0x200000 0x80000000 \<and>
   0 \<le> sint (0x7FF00000 :: u64) \<and>
   clamped_start 0x7FF00000 0x80000000 = 0x7FF00000 \<and>
   clamped_end 0x7FF00000 0x200000 0x80000000 = 0x80000000 \<and>
   new_events [] (snd (zero_dev_clamped env_file None 0x7FF00000 0x200000 0x80000000 [])) =
     [EvMalloc 0x100000, EvPwriteZero 0x7FF00000 0x100000] \<and>
   zero_range (EvPwriteZero 0x7FF00000 0x100000) =
     {unat (0x7FF00000 :: u64) ..<
        unat (max_off_t 0x7FF00000 (0x7FF00000 + 0x200000 :: u64))}
       \<inter> {0 ..< unat (0x80000000 :: u64)} \<and>
   \<not> negative_start_end_inside (0x100000 - ZERO_DEV_BYTES) ZERO_DEV_BYTES 0x100000 \<and>
   sint (0x100000 - ZERO_DEV_BYTES) < 0 \<and>
   clamped_start (0x100000 - ZERO_DEV_BYTES) 0x100000
     \<le> clamped_end (0x100000 - ZERO_DEV_BYTES) ZERO_DEV_BYTES 0x100000"
proof -
  have h: "0 \<le> sint (0x7FF00000 :: u64)" by simp
  have g: "\<not> negative_start_end_inside 0x7FF00000 0x200000 0x80000000"
    by (simp add: negative_start_end_inside_def)
  have n: "new_events [] (snd (zero_dev_clamped env_file None 0x7FF00000 0x200000 0x80000000 [])) =
     [EvMalloc 0x100000, EvPwriteZero 0x7FF00000 0x100000]"
    by code_simp
  have a: "clamped_start 0x7FF00000 0x80000000 = 0x7FF00000" by code_simp
  have b: "clamped_end 0x7FF00000 0x200000 0x80000000 = 0x80000000" by code_simp
  from zero_dev_clamped_in_bounds [OF g, where t = "[]" and e = env_file and zi = None]
  have "\<forall>ev \<in> set [EvMalloc 0x100000, EvPwriteZero 0x7FF00000 0x100000].
        (0 \<le> sint (0x7FF00000 :: u64) \<and> is_zero_op ev \<longrightarrow>
           zero_range ev =
             {unat (0x7FF00000 :: u64) ..<
                unat (max_off_t 0x7FF00000 (0x7FF00000 + 0x200000 :: u64))}
               \<inter> {0 ..< unat (0x80000000 :: u64)})"
    unfolding n by blast
  then have r: "zero_range (EvPwriteZero 0x7FF00000 0x100000) =
     {unat (0x7FF00000 :: u64) ..<
        unat (max_off_t 0x7FF00000 (0x7FF00000 + 0x200000 :: u64))}
       \<inter> {0 ..< unat (0x80000000 :: u64)}"
    using h by simp
  have k: "\<not> negative_start_end_inside (0x100000 - ZERO_DEV_BYTES) ZERO_DEV_BYTES 0x100000"
    by (simp add: negative_start_end_inside_def ZERO_DEV_BYTES_def SZ_2M_def max_off_t_def)
  have m: "sint (0x100000 - ZERO_DEV_BYTES) < 0"
    by (simp add: ZERO_DEV_BYTES_def SZ_2M_def)
  from zero_dev_clamped_in_bounds [OF k, where t = "[]" and e = env_file and zi = None]
  have o: "clamped_start (0x100000 - ZERO_DEV_BYTES) 0x100000
     \<le> clamped_end (0x100000 - ZERO_DEV_BYTES) ZERO_DEV_BYTES 0x100000"
    by blast
  from g h a b n r k m o show ?thesis by blast
qed

text \<open>
  The excluded inputs are the ones where the clamped start ends up above the clamped
  end (\<open>clamped_order_iff\<close>): \<open>min_t(u64, ...)\<close> reads \<open>start = -5\<close> as a huge unsigned
  number and clamps it to \<open>dev_size = 100\<close>, above the clamped end 5, \<open>end - start\<close>
  wraps to \<open>2^64 - 95\<close>, and \<open>device_zero_blocks\<close> fails on the allocation.
\<close>

lemma clamping_of_negative_start:
  "negative_start_end_inside (- 5) 10 100 \<and>
   clamped_start (- 5) 100 = 100 \<and> clamped_end (- 5) 10 100 = 5 \<and>
   zero_dev_clamped env_file None (- 5) 10 100 [] = (- 12, [EvMalloc 0xFFFFFFFFFFFFFFA1])"
proof -
  have a: "clamped_start (- 5) 100 = 100" by code_simp
  have b: "clamped_end (- 5) 10 100 = 5" by code_simp
  have d: "zero_dev_clamped env_file None (- 5) 10 100 [] =
     (- 12, [EvMalloc 0xFFFFFFFFFFFFFFA1])"
    by code_simp
  have f: "negative_start_end_inside (- 5) 10 100"
    by code_simp
  from a b d f show ?thesis by blast
qed

text \<open>
  C3. \<open>zero_dev_clamped\<close> performs a zone reset over the clamped range, and no zero
  write, exactly when the zone info says the device is host-managed and the clamped
  range lies within a sequential zone. In every other case (no zone info, another
  model, a range that is not within a sequential zone) it performs the plain
  zero-fill of \<open>device_zero_blocks\<close> over the clamped range, and no reset. The test
  for the zone info and its model is the source's; what is done for a host-managed
  device is \<open>zero_zone_blocks\<close>, as the specification describes it.
\<close>

theorem zero_dev_clamped_reset_or_zero_fill:
  "(list_ex is_zone_reset (new_events t (snd (zero_dev_clamped e zi start len D t))) \<longleftrightarrow>
      resets_zone e zi (clamped_start start D)
        (clamped_end start len D - clamped_start start D)) \<and>
   (list_ex is_plain_call (new_events t (snd (zero_dev_clamped e zi start len D t))) \<longleftrightarrow>
      \<not> resets_zone e zi (clamped_start start D)
        (clamped_end start len D - clamped_start start D)) \<and>
   (resets_zone e zi (clamped_start start D)
        (clamped_end start len D - clamped_start start D) \<longrightarrow>
      zero_dev_clamped e zi start len D t =
        (zone_reset_range e t (the zi) (clamped_start start D)
           (clamped_end start len D - clamped_start start D),
         t @ [EvZoneResetRange (the zi) (clamped_start start D)
           (clamped_end start len D - clamped_start start D)])) \<and>
   (\<not> resets_zone e zi (clamped_start start D)
        (clamped_end start len D - clamped_start start D) \<longrightarrow>
      zero_dev_clamped e zi start len D t =
        device_zero_blocks e (clamped_start start D)
          (clamped_end start len D - clamped_start start D) t)"
proof (cases "resets_zone e zi (clamped_start start D)
    (clamped_end start len D - clamped_start start D)")
  case True
  then show ?thesis
    by (simp add: zero_dev_clamped_resets new_events_def)
next
  case False
  then show ?thesis
    by (simp add: zero_dev_clamped_zero_fills device_zero_blocks_new_events)
qed

theorem zero_dev_clamped_reset_or_zero_fill_witness:
  "resets_zone env_sequential (Some zinfo_hm) (clamped_start 0 100)
     (clamped_end 0 10 100 - clamped_start 0 100) \<and>
   zero_dev_clamped env_sequential (Some zinfo_hm) 0 10 100 [] =
     (0, [EvZoneResetRange zinfo_hm 0 10]) \<and>
   \<not> resets_zone env_file (Some zinfo_hm) (clamped_start 0 100)
     (clamped_end 0 10 100 - clamped_start 0 100) \<and>
   zero_dev_clamped env_file (Some zinfo_hm) 0 10 100 [] =
     (0, [EvMalloc 10, EvPwriteZero 0 10]) \<and>
   \<not> resets_zone env_sequential None (clamped_start 0 100)
     (clamped_end 0 10 100 - clamped_start 0 100) \<and>
   zero_dev_clamped env_sequential None 0 10 100 [] = (0, [EvMalloc 10, EvPwriteZero 0 10])"
proof -
  have cs: "clamped_start 0 100 = 0" "clamped_end 0 10 100 = 10"
    by code_simp+
  have r1: "resets_zone env_sequential (Some zinfo_hm) (clamped_start 0 100)
     (clamped_end 0 10 100 - clamped_start 0 100)"
    by (simp add: cs resets_zone_def range_in_sequential_zone_def env_sequential_def
        env_file_def zinfo_hm_def)
  have r2: "\<not> resets_zone env_file (Some zinfo_hm) (clamped_start 0 100)
     (clamped_end 0 10 100 - clamped_start 0 100)"
    by (simp add: cs resets_zone_def range_in_sequential_zone_def env_file_def)
  have r3: "\<not> resets_zone env_sequential None (clamped_start 0 100)
     (clamped_end 0 10 100 - clamped_start 0 100)"
    by (simp add: resets_zone_def)
  note d1 = zero_dev_clamped_reset_or_zero_fill [where e = env_sequential
      and zi = "Some zinfo_hm" and start = 0 and len = 10 and D = 100 and t = "[]"]
  note d2 = zero_dev_clamped_reset_or_zero_fill [where e = env_file
      and zi = "Some zinfo_hm" and start = 0 and len = 10 and D = 100 and t = "[]"]
  note d3 = zero_dev_clamped_reset_or_zero_fill [where e = env_sequential
      and zi = None and start = 0 and len = 10 and D = 100 and t = "[]"]
  from d1 r1 have "zero_dev_clamped env_sequential (Some zinfo_hm) 0 10 100 [] =
      (zone_reset_range env_sequential [] (the (Some zinfo_hm)) (clamped_start 0 100)
         (clamped_end 0 10 100 - clamped_start 0 100),
       [] @ [EvZoneResetRange (the (Some zinfo_hm)) (clamped_start 0 100)
         (clamped_end 0 10 100 - clamped_start 0 100)])"
    by blast
  then have a: "zero_dev_clamped env_sequential (Some zinfo_hm) 0 10 100 [] =
      (0, [EvZoneResetRange zinfo_hm 0 10])"
    by (simp add: cs env_sequential_def env_file_def)
  from d2 r2 have "zero_dev_clamped env_file (Some zinfo_hm) 0 10 100 [] =
      device_zero_blocks env_file (clamped_start 0 100)
        (clamped_end 0 10 100 - clamped_start 0 100) []"
    by blast
  then have b: "zero_dev_clamped env_file (Some zinfo_hm) 0 10 100 [] =
      (0, [EvMalloc 10, EvPwriteZero 0 10])"
    by (simp add: cs device_zero_blocks_def env_file_def Let_def)
  from d3 r3 have "zero_dev_clamped env_sequential None 0 10 100 [] =
      device_zero_blocks env_sequential (clamped_start 0 100)
        (clamped_end 0 10 100 - clamped_start 0 100) []"
    by blast
  then have c: "zero_dev_clamped env_sequential None 0 10 100 [] =
      (0, [EvMalloc 10, EvPwriteZero 0 10])"
    by (simp add: cs device_zero_blocks_def env_sequential_def env_file_def Let_def)
  from r1 a r2 b r3 c show ?thesis by blast
qed




subsection \<open>Signature wiper\<close>

lemma wipe_found_cases:
  "wipe_found e zi offset len t = (Trapped, t) \<or>
   (\<exists>r op. wipe_found e zi offset len t = (Returned r, t @ [op, EvFsync]) \<and>
      is_wipe_write op)"
  by (auto simp: wipe_found_def Let_def split: option.splits)

text \<open>The probe was not created, or could not be attached: -1, and no lookup.\<close>

lemma wipe_not_attached:
  assumes "\<not> probe_attached e t"
  shows "btrfs_wipe_existing_sb e ps zi t =
     (Returned (- 1),
      if blkid_new_probe e t then t @ [EvNewProbe, EvProbeSetDevice, EvFreeProbe]
      else t @ [EvNewProbe])"
  using assms by (auto simp: btrfs_wipe_existing_sb_def probe_attached_def Let_def)

text \<open>The lookups found nothing: 1, and the probe is freed.\<close>

lemma wipe_nothing_found:
  assumes "probe_attached e t" and "nothing_found e (t @ [EvNewProbe, EvProbeSetDevice])"
  shows "btrfs_wipe_existing_sb e ps zi t =
     (Returned 1,
      if fst (lookup_SBMAGIC_OFFSET e (t @ [EvNewProbe, EvProbeSetDevice])) = 0
      then t @ [EvNewProbe, EvProbeSetDevice, EvLookupOffset, EvLookupMagic, EvFreeProbe]
      else t @ [EvNewProbe, EvProbeSetDevice, EvLookupOffset, EvFreeProbe])"
  using assms
  by (auto simp: btrfs_wipe_existing_sb_def probe_attached_def nothing_found_def Let_def
      split_beta split: if_splits)

text \<open>A signature was found: the erasing call, then \<open>fsync\<close>, then the probe is freed.\<close>

lemma wipe_signature_found:
  assumes "signature_found e t"
  shows "btrfs_wipe_existing_sb e ps zi t =
       (Trapped, t @ [EvNewProbe, EvProbeSetDevice, EvLookupOffset, EvLookupMagic]) \<or>
     (\<exists>r op. btrfs_wipe_existing_sb e ps zi t =
       (Returned r, t @ [EvNewProbe, EvProbeSetDevice, EvLookupOffset, EvLookupMagic,
          op, EvFsync, EvFreeProbe]) \<and> is_wipe_write op)"
proof -
  let ?t2 = "t @ [EvNewProbe, EvProbeSetDevice]"
  let ?t4 = "t @ [EvNewProbe, EvProbeSetDevice, EvLookupOffset, EvLookupMagic]"
  obtain r1 off where o: "lookup_SBMAGIC_OFFSET e ?t2 = (r1, off)"
    by (cases "lookup_SBMAGIC_OFFSET e ?t2")
  obtain r2 l where m: "lookup_SBMAGIC e (?t2 @ [EvLookupOffset]) = (r2, l)"
    by (cases "lookup_SBMAGIC e (?t2 @ [EvLookupOffset])")
  have f: "r1 = 0" "r2 = 0" "l \<noteq> 0" "off \<noteq> None"
    using assms o m by (auto simp: signature_found_def nothing_found_def split: if_splits)
  obtain ov where ov: "off = Some ov" using f(4) by auto
  define len' where "len' = (if l > BUFSIZ ps then BUFSIZ ps else l)"
  have att: "blkid_new_probe e t" "blkid_probe_set_device e (t @ [EvNewProbe]) = 0"
    using assms by (simp_all add: signature_found_def probe_attached_def)
  have unf: "btrfs_wipe_existing_sb e ps zi t =
      (case wipe_found e zi (the off) len' ?t4 of
         (Trapped, t5) \<Rightarrow> (Trapped, t5)
       | (Returned r, t5) \<Rightarrow> (Returned r, t5 @ [EvFreeProbe]))"
    using o m f(1,2,3) att
    by (simp add: btrfs_wipe_existing_sb_def ov Let_def len'_def split: prod.splits)
  show ?thesis
    using wipe_found_cases [of e zi "the off" len' ?t4] unfolding unf by auto
qed

lemma wipe_steps:
  "\<exists>ys. snd (btrfs_wipe_existing_sb e ps zi t) = t @ ys \<and> list_all is_wipe ys"
proof (cases "signature_found e t")
  case True
  have "is_wipe op" if "is_wipe_write op" for op
    using that by (cases op) simp_all
  then show ?thesis
    using wipe_signature_found [OF True, of ps zi] by auto
next
  case False
  show ?thesis
  proof (cases "probe_attached e t")
    case True
    then have "nothing_found e (t @ [EvNewProbe, EvProbeSetDevice])"
      using False by (simp add: signature_found_def)
    then show ?thesis using True by (simp add: wipe_nothing_found)
  next
    case na: False
    then show ?thesis by (simp add: wipe_not_attached)
  qed
qed

text \<open>
  C4, amended. The two outcomes differ. When the probe is attached and finds no
  signature, \<open>btrfs_wipe_existing_sb\<close> returns 1 and \<open>btrfs_prepare_device\<close>, past its
  zeroing steps, goes on to return 0 with the block count. When the probe cannot be
  created or cannot be attached to the device, the wiper returns -1, and
  \<open>btrfs_prepare_device\<close> takes that as fatal: it returns 1 and stores no block count.
\<close>

theorem wipe_soft_and_fatal_outcomes:
  "(probe_attached e t \<and> nothing_found e (t @ [EvNewProbe, EvProbeSetDevice]) \<longrightarrow>
      fst (btrfs_wipe_existing_sb e ps zi t) = Returned 1) \<and>
   (\<not> probe_attached e t \<longrightarrow> fst (btrfs_wipe_existing_sb e ps zi t) = Returned (- 1)) \<and>
   (t = snd (zero_steps e ps zi opflags bc t0) \<and>
    0 \<le> fst (zero_steps e ps zi opflags bc t0) \<longrightarrow>
      (probe_attached e t \<and> nothing_found e (t @ [EvNewProbe, EvProbeSetDevice]) \<longrightarrow>
         fst (prepare_zero_wipe e ps zi opflags bc t0) = Returned 0 \<and>
         fst (snd (prepare_zero_wipe e ps zi opflags bc t0)) = Some bc) \<and>
      (\<not> probe_attached e t \<longrightarrow>
         fst (prepare_zero_wipe e ps zi opflags bc t0) = Returned 1 \<and>
         fst (snd (prepare_zero_wipe e ps zi opflags bc t0)) = None))"
  by (auto simp: wipe_not_attached wipe_nothing_found prepare_zero_wipe_def prepare_err_def
      split_beta Let_def)

theorem wipe_soft_and_fatal_outcomes_witness:
  "probe_attached env_file [] \<and> nothing_found env_file ([] @ [EvNewProbe, EvProbeSetDevice]) \<and>
   fst (btrfs_wipe_existing_sb env_file upstream_params None []) = Returned 1 \<and>
   \<not> probe_attached env_noattach [] \<and>
   fst (btrfs_wipe_existing_sb env_noattach upstream_params None []) = Returned (- 1) \<and>
   0 \<le> fst (zero_steps env_file upstream_params None 0 0x80000000 []) \<and>
   fst (prepare_zero_wipe env_file upstream_params None 0 0x80000000 []) = Returned 0 \<and>
   fst (snd (prepare_zero_wipe env_file upstream_params None 0 0x80000000 [])) =
     Some 0x80000000 \<and>
   0 \<le> fst (zero_steps env_noattach upstream_params None 0 0x80000000 []) \<and>
   fst (prepare_zero_wipe env_noattach upstream_params None 0 0x80000000 []) = Returned 1 \<and>
   fst (snd (prepare_zero_wipe env_noattach upstream_params None 0 0x80000000 [])) = None"
proof -
  have a: "probe_attached env_file []"
    by (simp add: probe_attached_def env_file_def)
  have b: "nothing_found env_file ([] @ [EvNewProbe, EvProbeSetDevice])"
    by (simp add: nothing_found_def env_file_def)
  have c: "\<not> probe_attached env_noattach []"
    by (simp add: probe_attached_def env_noattach_def env_file_def)
  note w1 = wipe_soft_and_fatal_outcomes [where e = env_file and t = "[]"
      and ps = upstream_params and zi = None and opflags = 0 and bc = 0 and ?t0.0 = "[]"]
  note w2 = wipe_soft_and_fatal_outcomes [where e = env_noattach and t = "[]"
      and ps = upstream_params and zi = None and opflags = 0 and bc = 0 and ?t0.0 = "[]"]
  from w1 a b have d: "fst (btrfs_wipe_existing_sb env_file upstream_params None []) = Returned 1"
    by blast
  from w2 c have e: "fst (btrfs_wipe_existing_sb env_noattach upstream_params None []) =
      Returned (- 1)"
    by blast
  define T where "T = snd (zero_steps env_file upstream_params None 0 0x80000000 [])"
  define U where "U = snd (zero_steps env_noattach upstream_params None 0 0x80000000 [])"
  have z1: "0 \<le> fst (zero_steps env_file upstream_params None 0 0x80000000 [])"
    by code_simp
  have z2: "0 \<le> fst (zero_steps env_noattach upstream_params None 0 0x80000000 [])"
    by code_simp
  have aT: "probe_attached env_file T"
    by (simp add: probe_attached_def env_file_def)
  have bT: "nothing_found env_file (T @ [EvNewProbe, EvProbeSetDevice])"
    by (simp add: nothing_found_def env_file_def)
  have cU: "\<not> probe_attached env_noattach U"
    by (simp add: probe_attached_def env_noattach_def env_file_def)
  note w3 = wipe_soft_and_fatal_outcomes [where e = env_file and t = T
      and ps = upstream_params and zi = None and opflags = 0 and bc = "0x80000000"
      and ?t0.0 = "[]"]
  note w4 = wipe_soft_and_fatal_outcomes [where e = env_noattach and t = U
      and ps = upstream_params and zi = None and opflags = 0 and bc = "0x80000000"
      and ?t0.0 = "[]"]
  from w3 T_def z1 aT bT
  have f: "fst (prepare_zero_wipe env_file upstream_params None 0 0x80000000 []) = Returned 0 \<and>
      fst (snd (prepare_zero_wipe env_file upstream_params None 0 0x80000000 [])) =
        Some 0x80000000"
    by blast
  from w4 U_def z2 cU
  have g: "fst (prepare_zero_wipe env_noattach upstream_params None 0 0x80000000 []) =
        Returned 1 \<and>
      fst (snd (prepare_zero_wipe env_noattach upstream_params None 0 0x80000000 [])) = None"
    by blast
  from a b c d e z1 z2 f g show ?thesis by blast
qed

text \<open>
  C4, as stated, fails: the two outcomes do not return the same value. On a file with
  no signature the wiper returns 1 and the preparation succeeds; when
  \<open>blkid_probe_set_device\<close> fails the wiper returns -1 and the preparation fails.
\<close>

theorem wipe_attach_failure_is_fatal:
  "fst (btrfs_wipe_existing_sb env_file upstream_params None []) = Returned 1 \<and>
   fst (btrfs_wipe_existing_sb env_noattach upstream_params None []) = Returned (- 1) \<and>
   fst (btrfs_prepare_device env_file upstream_params 0 0) = Returned 0 \<and>
   fst (btrfs_prepare_device env_noattach upstream_params 0 0) = Returned 1"
proof -
  have "fst (btrfs_wipe_existing_sb env_file upstream_params None []) = Returned 1"
    by code_simp
  moreover have "fst (btrfs_wipe_existing_sb env_noattach upstream_params None []) =
      Returned (- 1)"
    by code_simp
  moreover have "fst (btrfs_prepare_device env_file upstream_params 0 0) = Returned 0"
    by code_simp
  moreover have "fst (btrfs_prepare_device env_noattach upstream_params 0 0) = Returned 1"
    by code_simp
  ultimately show ?thesis by blast
qed

text \<open>
  C8, amended. \<open>btrfs_wipe_existing_sb\<close> calls \<open>fsync\<close> exactly on the paths where a
  signature was found and erasing it was attempted, by the zero write or by the zone
  reset, whether that attempt succeeded or failed: the calls it adds are the probe,
  the two lookups, the erasing call, \<open>fsync\<close> and the release of the probe, in this
  order. On every other path (no probe, probe not attached, nothing found) it
  returns 1 or -1 without calling \<open>fsync\<close>.
\<close>

theorem wipe_fsync_after_attempt:
  "(signature_found e t \<longrightarrow>
      (\<forall>r. fst (btrfs_wipe_existing_sb e ps zi t) = Returned r \<longrightarrow>
         new_events t (snd (btrfs_wipe_existing_sb e ps zi t)) =
           [EvNewProbe, EvProbeSetDevice, EvLookupOffset, EvLookupMagic,
            new_events t (snd (btrfs_wipe_existing_sb e ps zi t)) ! 4,
            EvFsync, EvFreeProbe] \<and>
         is_wipe_write (new_events t (snd (btrfs_wipe_existing_sb e ps zi t)) ! 4))) \<and>
   (\<not> signature_found e t \<longrightarrow>
      EvFsync \<notin> set (new_events t (snd (btrfs_wipe_existing_sb e ps zi t))) \<and>
      (fst (btrfs_wipe_existing_sb e ps zi t) = Returned 1 \<or>
       fst (btrfs_wipe_existing_sb e ps zi t) = Returned (- 1)))"
proof (cases "signature_found e t")
  case True
  then show ?thesis
    using wipe_signature_found [OF True, of ps zi] by (auto simp: new_events_def)
next
  case False
  show ?thesis
  proof (cases "probe_attached e t")
    case True
    then have "nothing_found e (t @ [EvNewProbe, EvProbeSetDevice])"
      using False by (simp add: signature_found_def)
    then show ?thesis
      using False True by (simp add: wipe_nothing_found new_events_def)
  next
    case na: False
    then show ?thesis using False by (simp add: wipe_not_attached new_events_def)
  qed
qed

theorem wipe_fsync_after_attempt_witness:
  "signature_found env_signature [] \<and>
   btrfs_wipe_existing_sb env_signature upstream_params None [] =
     (Returned 8, [EvNewProbe, EvProbeSetDevice, EvLookupOffset, EvLookupMagic,
        EvPwriteWipe 0x10040 8, EvFsync, EvFreeProbe]) \<and>
   is_wipe_write
     (new_events [] (snd (btrfs_wipe_existing_sb env_signature upstream_params None [])) ! 4) \<and>
   \<not> signature_found env_file [] \<and>
   EvFsync \<notin> set (new_events [] (snd (btrfs_wipe_existing_sb env_file upstream_params None [])))"
proof -
  have a: "signature_found env_signature []"
    by (simp add: signature_found_def probe_attached_def nothing_found_def env_signature_def
        env_file_def)
  have b: "\<not> signature_found env_file []"
    by (simp add: signature_found_def probe_attached_def nothing_found_def env_file_def)
  have c: "btrfs_wipe_existing_sb env_signature upstream_params None [] =
     (Returned 8, [EvNewProbe, EvProbeSetDevice, EvLookupOffset, EvLookupMagic,
        EvPwriteWipe 0x10040 8, EvFsync, EvFreeProbe])"
    by code_simp
  have r: "fst (btrfs_wipe_existing_sb env_signature upstream_params None []) = Returned 8"
    by (simp add: c)
  note w1 = wipe_fsync_after_attempt [where e = env_signature and t = "[]"
      and ps = upstream_params and zi = None]
  note w2 = wipe_fsync_after_attempt [where e = env_file and t = "[]"
      and ps = upstream_params and zi = None]
  from w1 a r have d: "is_wipe_write
     (new_events [] (snd (btrfs_wipe_existing_sb env_signature upstream_params None [])) ! 4)"
    by blast
  from w2 b have e: "EvFsync \<notin>
      set (new_events [] (snd (btrfs_wipe_existing_sb env_file upstream_params None [])))"
    by blast
  from a b c d e show ?thesis by blast
qed

text \<open>
  C8, as stated, fails on the soft path where the probe is attached and finds no
  signature: the \<open>goto out\<close> jumps behind the \<open>fsync\<close>. The wiper returns 1 and its
  trace has no \<open>fsync\<close>.
\<close>

theorem wipe_no_signature_no_fsync:
  "btrfs_wipe_existing_sb env_file upstream_params None [] =
     (Returned 1, [EvNewProbe, EvProbeSetDevice, EvLookupOffset, EvFreeProbe]) \<and>
   EvFsync \<notin> set [EvNewProbe, EvProbeSetDevice, EvLookupOffset, EvFreeProbe]"
proof -
  have "btrfs_wipe_existing_sb env_file upstream_params None [] =
     (Returned 1, [EvNewProbe, EvProbeSetDevice, EvLookupOffset, EvFreeProbe])"
    by code_simp
  then show ?thesis by simp
qed

subsection \<open>The first steps of the orchestrator\<close>

lemma device_size_trace:
  "snd (btrfs_device_size e st t) = t \<or> snd (btrfs_device_size e st t) = t @ [EvBlkGetSize64]"
  by (simp add: btrfs_device_size_def split_beta)

lemma untouched_size: "untouched (snd (size_at_prepare e))"
  using device_size_trace [of e "stat_at_prepare e" "[EvFstat]"]
  by (auto simp: size_at_prepare_def untouched_def)

lemma prepare_unfold:
  "btrfs_prepare_device e ps m opflags =
     (if fst (fstat e []) < 0 then (Returned 1, None, [EvFstat])
      else if fst (size_at_prepare e) = 0 then (Returned 1, None, snd (size_at_prepare e))
      else prepare_branch e ps opflags
             (if m \<noteq> 0 then min (fst (size_at_prepare e)) m else fst (size_at_prepare e))
             (snd (size_at_prepare e)))"
  by (simp add: btrfs_prepare_device_def size_at_prepare_def stat_at_prepare_def
      split_beta Let_def)

lemma branch_zoned_fail:
  assumes "opflags AND PREP_DEVICE_ZONED ps \<noteq> 0"
    and "fst (btrfs_get_zone_info e t) < 0 \<or> snd (btrfs_get_zone_info e t) = None"
  shows "prepare_branch e ps opflags bc t =
     (Returned 1, None,
      t @ [EvGetZoneInfo (fst (btrfs_get_zone_info e t)) (snd (btrfs_get_zone_info e t))])"
  using assms by (auto simp: prepare_branch_def split_beta Let_def split: option.splits)

text \<open>
  C5. When \<open>PREP_DEVICE_ZONED\<close> is set and loading the zone info fails (a negative
  return value, or no zone info stored), \<open>btrfs_prepare_device\<close> returns 1, stores no
  block count, and its trace has no call of the zero-fill, no discard and no call of
  the signature wiper.
\<close>

theorem prepare_zoned_load_failure:
  assumes "opflags AND PREP_DEVICE_ZONED ps \<noteq> 0"
    and "fst (zone_info_at_prepare e) < 0 \<or> snd (zone_info_at_prepare e) = None"
  shows "fst (btrfs_prepare_device e ps m opflags) = Returned 1 \<and>
     fst (snd (btrfs_prepare_device e ps m opflags)) = None \<and>
     untouched (snd (snd (btrfs_prepare_device e ps m opflags)))"
  using untouched_size [of e] assms(2)
  by (simp add: prepare_unfold branch_zoned_fail [OF assms(1)] zone_info_at_prepare_def
      untouched_def)

theorem prepare_zoned_load_failure_witness:
  "(8 :: 32 word) AND PREP_DEVICE_ZONED upstream_params \<noteq> 0 \<and>
   fst (zone_info_at_prepare env_file) < 0 \<and>
   btrfs_prepare_device env_file upstream_params 0 8 =
     (Returned 1, None, [EvFstat, EvGetZoneInfo (- 1) None]) \<and>
   untouched (snd (snd (btrfs_prepare_device env_file upstream_params 0 8)))"
proof -
  have a: "(8 :: 32 word) AND PREP_DEVICE_ZONED upstream_params \<noteq> 0"
    by (simp add: upstream_params_def)
  have b: "fst (zone_info_at_prepare env_file) < 0"
    by (simp add: zone_info_at_prepare_def env_file_def)
  have c: "btrfs_prepare_device env_file upstream_params 0 8 =
      (Returned 1, None, [EvFstat, EvGetZoneInfo (- 1) None])"
    by code_simp
  from prepare_zoned_load_failure [OF a, of env_file 0] b
  have "untouched (snd (snd (btrfs_prepare_device env_file upstream_params 0 8)))"
    by simp
  with a b c show ?thesis by simp
qed

text \<open>
  C10. For a \<open>struct stat\<close> that is neither a regular file nor a block device, and
  for a block device whose \<open>BLKGETSIZE64\<close> ioctl fails, \<open>btrfs_device_size\<close> returns 0.
  When that is the answer \<open>btrfs_prepare_device\<close> gets for its handle, it returns 1,
  stores no block count, and issues no discard, no zero-fill and no signature wipe.
\<close>

theorem device_size_zero_is_fatal:
  assumes "\<not> S_ISREG (st_mode st)"
    and "\<not> S_ISBLK (st_mode st) \<or> fst (ioctl_BLKGETSIZE64 e t) < 0"
  shows "fst (btrfs_device_size e st t) = 0 \<and>
     (st = stat_at_prepare e \<and> t = [EvFstat] \<longrightarrow>
        fst (btrfs_prepare_device e ps m opflags) = Returned 1 \<and>
        fst (snd (btrfs_prepare_device e ps m opflags)) = None \<and>
        untouched (snd (snd (btrfs_prepare_device e ps m opflags))))"
proof -
  have z: "fst (btrfs_device_size e st t) = 0"
    using assms by (auto simp: btrfs_device_size_def split_beta)
  show ?thesis
    using z untouched_size [of e]
    by (auto simp: prepare_unfold untouched_def size_at_prepare_def)
qed

theorem device_size_zero_is_fatal_witness:
  "\<not> S_ISREG (st_mode (stat_at_prepare env_fifo)) \<and>
   \<not> S_ISBLK (st_mode (stat_at_prepare env_fifo)) \<and>
   fst (btrfs_device_size env_fifo (stat_at_prepare env_fifo) [EvFstat]) = 0 \<and>
   fst (btrfs_prepare_device env_fifo upstream_params 0 3) = Returned 1 \<and>
   fst (snd (btrfs_prepare_device env_fifo upstream_params 0 3)) = None \<and>
   untouched (snd (snd (btrfs_prepare_device env_fifo upstream_params 0 3)))"
proof -
  have a: "\<not> S_ISREG (st_mode (stat_at_prepare env_fifo))"
    by (simp add: stat_at_prepare_def env_fifo_def env_file_def S_ISREG_def)
  have b: "\<not> S_ISBLK (st_mode (stat_at_prepare env_fifo))"
    by (simp add: stat_at_prepare_def env_fifo_def env_file_def S_ISBLK_def)
  from device_size_zero_is_fatal [OF a disjI1 [OF b],
      where t = "[EvFstat]" and ps = upstream_params and m = 0 and opflags = 3] a b
  show ?thesis by simp
qed

subsection \<open>The calls of a whole preparation\<close>

lemma zero_call_within:
  assumes "zero_call s l ev" and "s \<le> e'" and "e' \<le> D" and "l = e' - s"
  shows "within D ev"
proof -
  have "zero_range ev \<subseteq> {unat s ..< unat e'}"
    using zero_call_range(1) [OF assms(1)] range_of_ordered [OF assms(2)] assms(4) by simp
  moreover have "unat e' \<le> unat D"
    using assms(3) by (simp add: word_le_nat_alt)
  ultimately show ?thesis by (auto simp: within_def)
qed

text \<open>
  One call of \<open>zero_dev_clamped\<close> adds calls of the zero-fill only, and when the clamped
  start is not above the clamped end, all of them stay in front of \<open>D\<close>.
\<close>

lemma zero_dev_clamped_steps:
  "\<exists>ys. snd (zero_dev_clamped e zi start len D t) = t @ ys \<and> list_all is_zero_fill ys \<and>
     (clamped_start start D \<le> clamped_end start len D \<longrightarrow> list_all (within D) ys)"
proof -
  obtain ys where ys: "snd (zero_dev_clamped e zi start len D t) = t @ ys"
    "list_all (zero_call (clamped_start start D)
       (clamped_end start len D - clamped_start start D)) ys"
    using zero_dev_clamped_events by blast
  have "list_all is_zero_fill ys"
    using ys(2) by (auto simp: list_all_iff intro: zero_call_is_zero_fill)
  moreover have "list_all (within D) ys"
    if "clamped_start start D \<le> clamped_end start len D"
    using ys(2) zero_call_within [OF _ that clamped_end_le refl]
    by (auto simp: list_all_iff)
  ultimately show ?thesis using ys(1) by blast
qed

lemma sb_offsets_nonnegD:
  "sb_offsets_nonneg ps \<Longrightarrow> 0 \<le> i \<Longrightarrow> i < BTRFS_SUPER_MIRROR_MAX ps \<Longrightarrow>
     0 \<le> sint (btrfs_sb_offset ps i)"
  by (simp add: sb_offsets_nonneg_def list_all_iff)

lemma zero_mirrors_steps:
  "\<exists>ys. snd (zero_mirrors e ps zi D i ret t) = t @ ys \<and> list_all is_zero_fill ys \<and>
     (sb_offsets_nonneg ps \<and> 0 \<le> i \<longrightarrow> list_all (within D) ys)"
proof (induction e ps zi D i ret t rule: zero_mirrors.induct)
  case (1 e ps zi D i ret t)
  show ?case
  proof (cases "ret = 0 \<and> i < BTRFS_SUPER_MIRROR_MAX ps")
    case False
    then have "zero_mirrors e ps zi D i ret t = (ret, t)"
      by (subst zero_mirrors.simps) (simp only: if_False)
    then show ?thesis by simp
  next
    case True
    let ?r = "zero_dev_clamped e zi (btrfs_sb_offset ps i) (BTRFS_SUPER_INFO_SIZE ps) D t"
    obtain ret' t' where r: "?r = (ret', t')" by (cases ?r)
    have step: "zero_mirrors e ps zi D i ret t = zero_mirrors e ps zi D (i + 1) ret' t'"
      using True r by (subst zero_mirrors.simps) simp
    obtain xs where xs: "t' = t @ xs" "list_all is_zero_fill xs"
      "clamped_start (btrfs_sb_offset ps i) D
         \<le> clamped_end (btrfs_sb_offset ps i) (BTRFS_SUPER_INFO_SIZE ps) D
       \<longrightarrow> list_all (within D) xs"
      using zero_dev_clamped_steps
        [of e zi "btrfs_sb_offset ps i" "BTRFS_SUPER_INFO_SIZE ps" D t] r
      by auto
    obtain ys where ys: "snd (zero_mirrors e ps zi D (i + 1) ret' t') = t' @ ys"
      "list_all is_zero_fill ys"
      "sb_offsets_nonneg ps \<and> 0 \<le> i + 1 \<longrightarrow> list_all (within D) ys"
      using "1.IH" [OF True r [symmetric] refl] by blast
    have "list_all (within D) (xs @ ys)" if "sb_offsets_nonneg ps" "0 \<le> i"
    proof -
      have "0 \<le> sint (btrfs_sb_offset ps i)"
        using that True by (simp add: sb_offsets_nonnegD)
      then have "list_all (within D) xs"
        using xs(3) clamped_order_nonneg by blast
      then show ?thesis using ys(3) that by simp
    qed
    then show ?thesis
      using xs ys by (intro exI [of _ "xs @ ys"]) (simp add: step)
  qed
qed

lemma zero_steps_steps:
  "\<exists>ys. snd (zero_steps e ps zi opflags D t) = t @ ys \<and> list_all is_zero_fill ys \<and>
     (sb_offsets_nonneg ps \<longrightarrow> list_all (within D) ys)"
proof -
  let ?r0 = "zero_dev_clamped e zi 0 ZERO_DEV_BYTES D t"
  obtain ret0 t0 where r0: "?r0 = (ret0, t0)" by (cases ?r0)
  let ?r1 = "zero_mirrors e ps zi D 0 ret0 t0"
  obtain ret1 t1 where r1: "?r1 = (ret1, t1)" by (cases ?r1)
  let ?r2 = "zero_dev_clamped e zi (D - ZERO_DEV_BYTES) ZERO_DEV_BYTES D t1"
  have unf: "zero_steps e ps zi opflags D t =
      (if ret1 = 0 \<and> opflags AND PREP_DEVICE_ZERO_END ps \<noteq> 0 then ?r2 else (ret1, t1))"
    by (simp add: zero_steps_def r0 r1)
  obtain xs where xs: "t0 = t @ xs" "list_all is_zero_fill xs" "list_all (within D) xs"
    using zero_dev_clamped_steps [of e zi 0 ZERO_DEV_BYTES D t] r0
      clamped_order_nonneg [of 0 D ZERO_DEV_BYTES] by auto
  obtain ys where ys: "t1 = t0 @ ys" "list_all is_zero_fill ys"
      "sb_offsets_nonneg ps \<longrightarrow> list_all (within D) ys"
    using zero_mirrors_steps [of e ps zi D 0 ret0 t0] r1 by auto
  obtain zs where zs: "snd ?r2 = t1 @ zs" "list_all is_zero_fill zs" "list_all (within D) zs"
    using zero_dev_clamped_steps [of e zi "D - ZERO_DEV_BYTES" ZERO_DEV_BYTES D t1]
      clamped_order_tail [of D ZERO_DEV_BYTES] by auto
  show ?thesis
  proof (cases "ret1 = 0 \<and> opflags AND PREP_DEVICE_ZERO_END ps \<noteq> 0")
    case True
    then show ?thesis
      using xs ys zs by (intro exI [of _ "xs @ ys @ zs"]) (simp add: unf)
  next
    case False
    then show ?thesis
      using xs ys by (intro exI [of _ "xs @ ys"]) (auto simp: unf)
  qed
qed

lemma is_wipe_within: "is_wipe ev \<Longrightarrow> within D ev"
  by (cases ev) (simp_all add: within_def)

text \<open>
  From the first zeroing step on: calls of the zero-fill and of the wiper, then,
  unless the wiper trapped, \<open>free(zinfo)\<close>; the block count is stored exactly when 0
  is returned.
\<close>

lemma prepare_zero_wipe_steps:
  "\<exists>ys. snd (snd (prepare_zero_wipe e ps zi opflags D t)) =
          t @ ys @ (if fst (prepare_zero_wipe e ps zi opflags D t) = Trapped then []
                    else [EvFreeZinfo zi]) \<and>
        list_all is_step ys \<and>
        (sb_offsets_nonneg ps \<longrightarrow> list_all (within D) ys) \<and>
        (fst (prepare_zero_wipe e ps zi opflags D t) = Returned 0 \<and>
           fst (snd (prepare_zero_wipe e ps zi opflags D t)) = Some D \<or>
         fst (prepare_zero_wipe e ps zi opflags D t) \<noteq> Returned 0 \<and>
           fst (snd (prepare_zero_wipe e ps zi opflags D t)) = None)"
proof -
  let ?z = "zero_steps e ps zi opflags D t"
  obtain ret t1 where z: "?z = (ret, t1)" by (cases ?z)
  obtain xs where xs: "t1 = t @ xs" "list_all is_zero_fill xs"
      "sb_offsets_nonneg ps \<longrightarrow> list_all (within D) xs"
    using zero_steps_steps [of e ps zi opflags D t] z by auto
  have xs_step: "list_all is_step xs"
    using xs(2) by (simp add: list_all_iff is_step_def)
  show ?thesis
  proof (cases "ret < 0")
    case True
    then have "prepare_zero_wipe e ps zi opflags D t =
        (Returned 1, None, t1 @ [EvFreeZinfo zi])"
      by (simp add: prepare_zero_wipe_def z prepare_err_def)
    then show ?thesis
      using xs xs_step by (intro exI [of _ xs]) simp
  next
    case False
    let ?w = "btrfs_wipe_existing_sb e ps zi t1"
    obtain st t2 where w: "?w = (st, t2)" by (cases ?w)
    obtain ys where ys: "t2 = t1 @ ys" "list_all is_wipe ys"
      using wipe_steps [of e ps zi t1] w by auto
    have ys_step: "list_all is_step ys"
      using ys(2) by (simp add: list_all_iff is_step_def)
    have ys_within: "list_all (within D) ys"
      using ys(2) by (auto simp: list_all_iff intro: is_wipe_within)
    have unf: "prepare_zero_wipe e ps zi opflags D t =
        (case st of Trapped \<Rightarrow> (Trapped, None, t2)
         | Returned r \<Rightarrow> if r < 0 then (Returned 1, None, t2 @ [EvFreeZinfo zi])
             else (Returned 0, Some D, t2 @ [EvFreeZinfo zi]))"
      using False
      by (simp add: prepare_zero_wipe_def z w prepare_err_def split: status.splits)
    show ?thesis
      using xs ys xs_step ys_step ys_within
      by (intro exI [of _ "xs @ ys"]) (auto simp: unf split: status.splits)
  qed
qed

lemma within_other [simp]:
  "within D EvFstat" "within D EvBlkGetSize64" "within D (EvBlkDiscard s l)"
  "within D (EvGetZoneInfo r zi)" "within D (EvResetAllZones z)" "within D (EvFreeZinfo zi)"
  by (simp_all add: within_def)

lemma within_evd [simp]: "within D (evd c)"
  by (simp add: evd_def)

lemma is_step_evd [simp]: "is_step (evd c)"
  by (simp add: evd_def is_step_def)

lemma discard_blocks_steps:
  "\<exists>ys. snd (device_discard_blocks e start len t) = t @ ys \<and> list_all is_step ys \<and>
     list_all (within D) ys"
proof -
  obtain cs where "snd (device_discard_blocks e start len t) = t @ map evd cs"
    using discard_loop_chunks [of e start len t] by blast
  then show ?thesis
    by (intro exI [of _ "map evd cs"]) (simp add: list_all_iff)
qed

lemma zinfo_allocs_append: "zinfo_allocs (xs @ ys) = zinfo_allocs xs @ zinfo_allocs ys"
  by (induction xs rule: zinfo_allocs.induct) simp_all

lemma zinfo_frees_append: "zinfo_frees (xs @ ys) = zinfo_frees xs @ zinfo_frees ys"
  by (induction xs rule: zinfo_frees.induct) simp_all

lemma steps_no_zinfo:
  "list_all is_step ys \<Longrightarrow> zinfo_allocs ys = [] \<and> zinfo_frees ys = []"
proof (induction ys)
  case Nil
  then show ?case by simp
next
  case (Cons ev ys)
  then show ?case by (cases ev) (simp_all add: is_step_def)
qed

lemma branch_within:
  assumes "sb_offsets_nonneg ps"
  shows "\<exists>ys. snd (snd (prepare_branch e ps opflags D t)) = t @ ys \<and>
     list_all (within D) ys \<and>
     (fst (prepare_branch e ps opflags D t) = Returned 0 \<longrightarrow>
        fst (snd (prepare_branch e ps opflags D t)) = Some D)"
proof -
  have pzw: "\<exists>ys. snd (snd (prepare_zero_wipe e ps zi opflags D (t @ pre))) = t @ ys \<and>
        list_all (within D) ys \<and>
        (fst (prepare_zero_wipe e ps zi opflags D (t @ pre)) = Returned 0 \<longrightarrow>
           fst (snd (prepare_zero_wipe e ps zi opflags D (t @ pre))) = Some D)"
    if "list_all (within D) pre" for zi pre
  proof -
    let ?p = "prepare_zero_wipe e ps zi opflags D (t @ pre)"
    obtain ys where ys: "snd (snd ?p) =
          (t @ pre) @ ys @ (if fst ?p = Trapped then [] else [EvFreeZinfo zi])"
        "list_all (within D) ys"
        "fst ?p = Returned 0 \<and> fst (snd ?p) = Some D \<or>
         fst ?p \<noteq> Returned 0 \<and> fst (snd ?p) = None"
      using prepare_zero_wipe_steps [of e ps zi opflags D "t @ pre"] assms by blast
    show ?thesis
      using ys that
      by (intro exI [of _ "pre @ ys @ (if fst ?p = Trapped then [] else [EvFreeZinfo zi])"])
         auto
  qed
  show ?thesis
  proof (cases "opflags AND PREP_DEVICE_ZONED ps \<noteq> 0")
    case True
    obtain rz zi where g: "btrfs_get_zone_info e t = (rz, zi)"
      by (cases "btrfs_get_zone_info e t")
    show ?thesis
    proof (cases zi)
      case None
      then show ?thesis using True g by (simp add: prepare_branch_def)
    next
      case (Some z)
      show ?thesis
      proof (cases "rz < 0")
        case neg: True
        then show ?thesis using True g Some by (simp add: prepare_branch_def)
      next
        case ok: False
        show ?thesis
        proof (cases "btrfs_reset_all_zones e (t @ [EvGetZoneInfo rz zi]) z \<noteq> 0")
          case rf: True
          then show ?thesis
            using True g Some ok by (simp add: prepare_branch_def prepare_err_def)
        next
          case rs: False
          have "prepare_branch e ps opflags D t =
              prepare_zero_wipe e ps zi opflags D
                (t @ [EvGetZoneInfo rz zi, EvResetAllZones z])"
            using True g Some ok rs by (simp add: prepare_branch_def)
          then show ?thesis
            using pzw [of "[EvGetZoneInfo rz zi, EvResetAllZones z]" zi] by simp
        qed
      qed
    qed
  next
    case nz: False
    show ?thesis
    proof (cases "opflags AND PREP_DEVICE_DISCARD ps \<noteq> 0")
      case False
      then have "prepare_branch e ps opflags D t =
          prepare_zero_wipe e ps None opflags D (t @ [])"
        using nz by (simp add: prepare_branch_def)
      then show ?thesis using pzw [of "[]" None] by simp
    next
      case True
      let ?t1 = "t @ [EvBlkDiscard 0 0]"
      show ?thesis
      proof (cases "fst (discard_range e 0 0 t) = 0")
        case f: False
        have "prepare_branch e ps opflags D t = prepare_zero_wipe e ps None opflags D ?t1"
          using nz True f by (simp add: prepare_branch_def split_beta discard_range_trace)
        then show ?thesis using pzw [of "[EvBlkDiscard 0 0]" None] by simp
      next
        case s: True
        obtain ys where ys: "snd (device_discard_blocks e 0 D ?t1) = ?t1 @ ys"
            "list_all (within D) ys"
          using discard_blocks_steps [of e 0 D ?t1 D] by blast
        have "prepare_branch e ps opflags D t =
            prepare_zero_wipe e ps None opflags D (t @ (EvBlkDiscard 0 0 # ys))"
          using nz True s ys(1)
          by (simp add: prepare_branch_def split_beta discard_range_trace)
        then show ?thesis using pzw [of "EvBlkDiscard 0 0 # ys" None] ys(2) by simp
      qed
    qed
  qed
qed

text \<open>
  C6. For every run of \<open>btrfs_prepare_device\<close> that returns 0 with a
  \<open>max_block_count\<close> other than 0, the stored block count is the minimum of the
  device size and \<open>max_block_count\<close>, so at most \<open>max_block_count\<close>, and no zeroing
  call of the run (the \<open>pwrite\<close> of \<open>device_zero_blocks\<close>, the zone reset of
  \<open>zero_zone_blocks\<close>) covers a byte offset at or behind that count. The mirror
  offsets, which are parameters here, are taken to be non-negative \<open>off_t\<close> values.
\<close>

theorem prepare_block_count_capped:
  assumes "m \<noteq> 0" and "sb_offsets_nonneg ps"
    and "fst (btrfs_prepare_device e ps m opflags) = Returned 0"
  shows "fst (snd (btrfs_prepare_device e ps m opflags)) =
       Some (min (fst (size_at_prepare e)) m) \<and>
     min (fst (size_at_prepare e)) m \<le> m \<and>
     (\<forall>ev \<in> set (snd (snd (btrfs_prepare_device e ps m opflags))).
        zero_range ev \<subseteq> {0 ..< unat (min (fst (size_at_prepare e)) m)})"
proof -
  let ?D = "min (fst (size_at_prepare e)) m"
  let ?t = "snd (size_at_prepare e)"
  have unf: "btrfs_prepare_device e ps m opflags = prepare_branch e ps opflags ?D ?t"
    using assms(1,3) by (auto simp: prepare_unfold split: if_splits)
  obtain ys where ys: "snd (snd (prepare_branch e ps opflags ?D ?t)) = ?t @ ys"
      "list_all (within ?D) ys"
      "fst (prepare_branch e ps opflags ?D ?t) = Returned 0 \<longrightarrow>
        fst (snd (prepare_branch e ps opflags ?D ?t)) = Some ?D"
    using branch_within [OF assms(2), of e opflags ?D ?t] by blast
  have pre: "list_all (within ?D) ?t"
    using device_size_trace [of e "stat_at_prepare e" "[EvFstat]"]
    by (auto simp: size_at_prepare_def)
  have "list_all (within ?D) (snd (snd (btrfs_prepare_device e ps m opflags)))"
    using ys(1,2) pre by (simp add: unf)
  then show ?thesis
    using ys(3) assms(3) by (simp add: unf list_all_iff within_def)
qed

theorem prepare_block_count_capped_witness:
  "(0x40000000 :: u64) \<noteq> 0 \<and> sb_offsets_nonneg upstream_params \<and>
   fst (btrfs_prepare_device env_file upstream_params 0x40000000 1) = Returned 0 \<and>
   fst (size_at_prepare env_file) = 0x80000000 \<and>
   fst (snd (btrfs_prepare_device env_file upstream_params 0x40000000 1)) = Some 0x40000000 \<and>
   EvPwriteZero 0x3FE00000 0x200000
     \<in> set (snd (snd (btrfs_prepare_device env_file upstream_params 0x40000000 1))) \<and>
   zero_range (EvPwriteZero 0x3FE00000 0x200000) \<subseteq> {0 ..< unat (0x40000000 :: u64)}"
proof -
  have h1: "(0x40000000 :: u64) \<noteq> 0" by simp
  have h2: "sb_offsets_nonneg upstream_params" by code_simp
  have h3: "fst (btrfs_prepare_device env_file upstream_params 0x40000000 1) = Returned 0"
    by code_simp
  have sz: "fst (size_at_prepare env_file) = 0x80000000" by code_simp
  have mem: "EvPwriteZero 0x3FE00000 0x200000
     \<in> set (snd (snd (btrfs_prepare_device env_file upstream_params 0x40000000 1)))"
    by code_simp
  note c = prepare_block_count_capped [OF h1 h2 h3]
  from c have bc: "fst (snd (btrfs_prepare_device env_file upstream_params 0x40000000 1)) =
      Some 0x40000000"
    by (simp add: sz)
  from c have "\<forall>ev \<in> set (snd (snd (btrfs_prepare_device env_file upstream_params 0x40000000 1))).
      zero_range ev \<subseteq> {0 ..< unat (0x40000000 :: u64)}"
    by (simp add: sz)
  with mem have rg: "zero_range (EvPwriteZero 0x3FE00000 0x200000)
      \<subseteq> {0 ..< unat (0x40000000 :: u64)}"
    by blast
  from h1 h2 h3 sz bc mem rg show ?thesis by blast
qed

lemma pzw_zinfo:
  assumes "fst (prepare_zero_wipe e ps zi opflags D t) = Returned r"
    and "zinfo_frees t = []"
    and "zinfo_allocs t = (case zi of None \<Rightarrow> [] | Some z \<Rightarrow> [z])"
  shows "zinfo_released (snd (snd (prepare_zero_wipe e ps zi opflags D t)))"
proof -
  let ?p = "prepare_zero_wipe e ps zi opflags D t"
  obtain ys where ys: "snd (snd ?p) =
          t @ ys @ (if fst ?p = Trapped then [] else [EvFreeZinfo zi])"
      "list_all is_step ys"
    using prepare_zero_wipe_steps [of e ps zi opflags D t] by blast
  have no: "zinfo_allocs ys = []" "zinfo_frees ys = []"
    using steps_no_zinfo [OF ys(2)] by simp_all
  have tr: "snd (snd ?p) = t @ ys @ [EvFreeZinfo zi]"
    using ys(1) assms(1) by simp
  show ?thesis
    unfolding tr zinfo_released_def
    using assms(2,3) no
    by (cases zi) (simp_all add: zinfo_allocs_append zinfo_frees_append)
qed

lemma branch_zinfo:
  assumes "fst (btrfs_get_zone_info e t) < 0 \<longrightarrow> snd (btrfs_get_zone_info e t) = None"
    and "zinfo_allocs t = []" and "zinfo_frees t = []"
    and "fst (prepare_branch e ps opflags D t) = Returned r"
  shows "zinfo_released (snd (snd (prepare_branch e ps opflags D t)))"
proof (cases "opflags AND PREP_DEVICE_ZONED ps \<noteq> 0")
  case True
  obtain rz zi where g: "btrfs_get_zone_info e t = (rz, zi)"
    by (cases "btrfs_get_zone_info e t")
  show ?thesis
  proof (cases zi)
    case None
    then show ?thesis
      using True g assms(2,3)
      by (simp add: prepare_branch_def zinfo_released_def zinfo_allocs_append
          zinfo_frees_append)
  next
    case (Some z)
    then have ok: "\<not> rz < 0" using assms(1) g by auto
    let ?t2 = "t @ [EvGetZoneInfo rz zi, EvResetAllZones z]"
    have a2: "zinfo_allocs ?t2 = [z]" "zinfo_frees ?t2 = []"
      using assms(2,3) Some by (simp_all add: zinfo_allocs_append zinfo_frees_append)
    show ?thesis
    proof (cases "btrfs_reset_all_zones e (t @ [EvGetZoneInfo rz zi]) z \<noteq> 0")
      case rf: True
      have "snd (snd (prepare_branch e ps opflags D t)) = ?t2 @ [EvFreeZinfo (Some z)]"
        using True g Some ok rf by (simp add: prepare_branch_def prepare_err_def)
      then show ?thesis
        using a2
        by (simp add: zinfo_released_def zinfo_allocs_append zinfo_frees_append
            del: append_assoc)
    next
      case rs: False
      have unf: "prepare_branch e ps opflags D t = prepare_zero_wipe e ps zi opflags D ?t2"
        using True g Some ok rs by (simp add: prepare_branch_def)
      show ?thesis
        unfolding unf
        using assms(4) a2 Some by (intro pzw_zinfo [where r = r]) (simp_all add: unf)
    qed
  qed
next
  case nz: False
  have none: "zinfo_released (snd (snd (prepare_zero_wipe e ps None opflags D (t @ pre))))"
    if "prepare_branch e ps opflags D t = prepare_zero_wipe e ps None opflags D (t @ pre)"
      and "list_all is_step pre" for pre
  proof -
    have "zinfo_allocs pre = []" "zinfo_frees pre = []"
      using steps_no_zinfo [OF that(2)] by simp_all
    then show ?thesis
      using assms(2,3,4) that(1)
      by (intro pzw_zinfo [where r = r])
         (simp_all add: zinfo_allocs_append zinfo_frees_append)
  qed
  show ?thesis
  proof (cases "opflags AND PREP_DEVICE_DISCARD ps \<noteq> 0")
    case False
    then have u: "prepare_branch e ps opflags D t =
        prepare_zero_wipe e ps None opflags D (t @ [])"
      using nz by (simp add: prepare_branch_def)
    show ?thesis using none [OF u] u by simp
  next
    case True
    let ?t1 = "t @ [EvBlkDiscard 0 0]"
    show ?thesis
    proof (cases "fst (discard_range e 0 0 t) = 0")
      case f: False
      have u: "prepare_branch e ps opflags D t =
          prepare_zero_wipe e ps None opflags D (t @ [EvBlkDiscard 0 0])"
        using nz True f by (simp add: prepare_branch_def split_beta discard_range_trace)
      show ?thesis using none [OF u] u by (simp add: is_step_def)
    next
      case s: True
      obtain ys where ys: "snd (device_discard_blocks e 0 D ?t1) = ?t1 @ ys"
          "list_all is_step ys"
        using discard_blocks_steps [of e 0 D ?t1 D] by blast
      have u: "prepare_branch e ps opflags D t =
          prepare_zero_wipe e ps None opflags D (t @ (EvBlkDiscard 0 0 # ys))"
        using nz True s ys(1)
        by (simp add: prepare_branch_def split_beta discard_range_trace)
      show ?thesis using none [OF u] u ys(2) by (simp add: is_step_def)
    qed
  qed
qed

text \<open>
  C9. On every path on which \<open>btrfs_prepare_device\<close> returns, a zone info it received
  from \<open>btrfs_get_zone_info\<close> is freed exactly once, by the last call before the
  return, and nothing is freed when none was received. The provider is taken to
  keep its contract: when it returns a negative value it has stored no zone info.
\<close>

theorem prepare_frees_zinfo_once:
  assumes "fst (zone_info_at_prepare e) < 0 \<longrightarrow> snd (zone_info_at_prepare e) = None"
    and "fst (btrfs_prepare_device e ps m opflags) = Returned r"
  shows "zinfo_released (snd (snd (btrfs_prepare_device e ps m opflags)))"
proof -
  let ?t = "snd (size_at_prepare e)"
  have pre: "zinfo_allocs ?t = []" "zinfo_frees ?t = []"
    using device_size_trace [of e "stat_at_prepare e" "[EvFstat]"]
    by (auto simp: size_at_prepare_def)
  show ?thesis
  proof (cases "fst (fstat e []) < 0 \<or> fst (size_at_prepare e) = 0")
    case True
    then show ?thesis
      using pre by (auto simp: prepare_unfold zinfo_released_def)
  next
    case False
    define D where
      "D = (if m \<noteq> 0 then min (fst (size_at_prepare e)) m else fst (size_at_prepare e))"
    have unf: "btrfs_prepare_device e ps m opflags = prepare_branch e ps opflags D ?t"
      using False by (simp add: prepare_unfold D_def)
    show ?thesis
      unfolding unf
      using assms pre
      by (intro branch_zinfo [where r = r]) (simp_all add: unf zone_info_at_prepare_def)
  qed
qed

theorem prepare_frees_zinfo_once_witness:
  "\<not> fst (zone_info_at_prepare env_zoned) < 0 \<and>
   fst (btrfs_prepare_device env_zoned upstream_params 0 8) = Returned 0 \<and>
   zinfo_released (snd (snd (btrfs_prepare_device env_zoned upstream_params 0 8))) \<and>
   zinfo_allocs (snd (snd (btrfs_prepare_device env_zoned upstream_params 0 8))) = [zinfo_hm] \<and>
   zinfo_frees (snd (snd (btrfs_prepare_device env_zoned upstream_params 0 8))) = [zinfo_hm] \<and>
   last (snd (snd (btrfs_prepare_device env_zoned upstream_params 0 8))) =
     EvFreeZinfo (Some zinfo_hm)"
proof -
  have h1: "\<not> fst (zone_info_at_prepare env_zoned) < 0"
    by (simp add: zone_info_at_prepare_def env_zoned_def env_file_def)
  have h2: "fst (btrfs_prepare_device env_zoned upstream_params 0 8) = Returned 0"
    by code_simp
  have al: "zinfo_allocs (snd (snd (btrfs_prepare_device env_zoned upstream_params 0 8))) =
      [zinfo_hm]"
    by code_simp
  have rel: "zinfo_released (snd (snd (btrfs_prepare_device env_zoned upstream_params 0 8)))"
    using h1 h2 by (intro prepare_frees_zinfo_once [where r = 0]) simp_all
  then have fr: "zinfo_frees (snd (snd (btrfs_prepare_device env_zoned upstream_params 0 8))) =
      [zinfo_hm]"
    by (simp add: zinfo_released_def al)
  from rel have la: "last (snd (snd (btrfs_prepare_device env_zoned upstream_params 0 8))) =
      EvFreeZinfo (Some zinfo_hm)"
    by (simp add: zinfo_released_def al)
  from h1 h2 rel al fr la show ?thesis by blast
qed

end
